theory Spec2Isabelle
  imports Complex_Main "HOL-Library.Product_Lexorder" "HOL-Library.Multiset" "HOL-Library.AList"
begin

section \<open>Resource model\<close>

text \<open>
  The declarations of \<open>simontype.NodeResource\<close> and \<open>simontype.PodResource\<close> lie outside
  the files under \<open>src/\<close>. The records below hold the fields that the code under \<open>src/\<close>
  reads (\<open>nodeRes.MilliCpuLeft\<close>, \<open>nodeRes.MilliGpuLeftList\<close>, \<open>podRes.MilliCpu\<close>,
  \<open>podRes.MilliGpu\<close>, \<open>podRes.GpuNumber\<close>, \<open>nodeRes.NodeName\<close>). Every function is
  stated over the extensible record schemes, so whatever further fields the real
  declarations have (GPU model, capacities) live in the \<open>more\<close> part and all results
  hold for them too.

  Go's \<open>int64\<close> and \<open>int\<close> (64 bit) are modelled as \<open>int\<close>; where the code does
  arithmetic on them the two's complement wrap-around is written out with \<open>wrap64\<close>.

  \<open>float64\<close> is modelled by \<open>real\<close>, with exact arithmetic, wherever the results are
  about comparisons, about which entry receives which amount, or about bounds that
  rounding keeps. In \<open>GetTypicalPods\<close> the flow of control hinges on rounding; there
  every operation is followed by a rounding function.
\<close>

record PodResource =
  MilliCpu :: int
  MilliGpu :: int
  GpuNumber :: int

record NodeResource =
  NodeName :: string
  MilliCpuLeft :: int
  MilliGpuLeftList :: "int list"

definition wrap64 :: "int \<Rightarrow> int" where
  "wrap64 x = (x + 2 ^ 63) mod 2 ^ 64 - 2 ^ 63"

definition is_int64 :: "int \<Rightarrow> bool" where
  "is_int64 x \<longleftrightarrow> - (2 ^ 63) \<le> x \<and> x < 2 ^ 63"

section \<open>Fragmentation categories (frag.go)\<close>

definition Q1LackBoth :: string where "Q1LackBoth = ''q1_lack_both''"
definition Q2LackGpu :: string where "Q2LackGpu = ''q2_lack_gpu''"
definition Q3Satisfied :: string where "Q3Satisfied = ''q3_satisfied''"
definition Q4LackCpu :: string where "Q4LackCpu = ''q4_lack_cpu''"
definition XLSatisfied :: string where "XLSatisfied = ''xl_satisfied''"
definition XRLackCPU :: string where "XRLackCPU = ''xr_lack_cpu''"
definition NoAccess :: string where "NoAccess = ''no_access''"

lemmas frag_names =
  Q1LackBoth_def Q2LackGpu_def Q3Satisfied_def Q4LackCpu_def XLSatisfied_def
  XRLackCPU_def NoAccess_def

text \<open>
  \<open>FragRatioDataMap\<close>: the index of each category in the data vectors. The map literal
  is kept as the list of its entries, so that \<open>len(FragRatioDataMap)\<close> is its length.
\<close>

definition FragRatioDataList :: "(string \<times> nat) list" where
  "FragRatioDataList =
     [(Q1LackBoth, 0), (Q2LackGpu, 1), (Q3Satisfied, 2), (Q4LackCpu, 3),
      (XLSatisfied, 4), (XRLackCPU, 5), (NoAccess, 6)]"

definition FragRatioDataMap :: "string \<rightharpoonup> nat" where
  "FragRatioDataMap = map_of FragRatioDataList"

text \<open>
  \<open>CanNodeHostPodOnGpuMemory\<close>: the loop over \<open>nodeRes.MilliGpuLeftList\<close>, with the
  running counter \<open>gpuRequest\<close>; \<open>gpuRequest -= 1\<close> is a Go \<open>int\<close> subtraction.
\<close>

fun canHostLoop :: "int \<Rightarrow> int \<Rightarrow> int list \<Rightarrow> bool" where
  "canHostLoop gpuRequest milliGpu [] = False"
| "canHostLoop gpuRequest milliGpu (gpuHostMem # rest) =
     (if gpuHostMem \<ge> milliGpu then
        (let gpuRequest' = wrap64 (gpuRequest - 1) in
         if gpuRequest' \<le> 0 then True else canHostLoop gpuRequest' milliGpu rest)
      else canHostLoop gpuRequest milliGpu rest)"

definition CanNodeHostPodOnGpuMemory ::
  "'a NodeResource_scheme \<Rightarrow> 'b PodResource_scheme \<Rightarrow> bool" where
  "CanNodeHostPodOnGpuMemory nodeRes podRes =
     canHostLoop (GpuNumber podRes) (MilliGpu podRes) (MilliGpuLeftList nodeRes)"

text \<open>
  \<open>GetNodePodFrag\<close>. \<open>IsNodeAccessibleToPod\<close> is a function of package \<open>utils\<close> whose
  file is not under \<open>src/\<close>; it is the parameter \<open>isNodeAccessibleToPod\<close>.
\<close>

definition GetNodePodFrag ::
  "('a NodeResource_scheme \<Rightarrow> 'b PodResource_scheme \<Rightarrow> bool) \<Rightarrow>
   'a NodeResource_scheme \<Rightarrow> 'b PodResource_scheme \<Rightarrow> string" where
  "GetNodePodFrag isNodeAccessibleToPod nodeRes podRes =
     (if MilliGpu podRes = 0 then
        (if MilliCpuLeft nodeRes \<ge> MilliCpu podRes then XLSatisfied else XRLackCPU)
      else if isNodeAccessibleToPod nodeRes podRes = False then NoAccess
      else if CanNodeHostPodOnGpuMemory nodeRes podRes then
        (if MilliCpuLeft nodeRes \<ge> MilliCpu podRes then Q3Satisfied else Q4LackCpu)
      else
        (if MilliCpuLeft nodeRes \<ge> MilliCpu podRes then Q2LackGpu else Q1LackBoth))"

section \<open>Skyline pods (frag.go)\<close>

text \<open>
  \<open>sort.SliceStable\<close> of Go's standard library: a stable sort by the comparison
  \<open>lessFn\<close>. A stable sort is determined by its contract (for a strict weak order there
  is one sorted arrangement that keeps the order of equal elements); it is written here
  as insertion from the right, each element going in front of the first element that is
  not less than it.
\<close>

fun insertBy :: "('a \<Rightarrow> 'a \<Rightarrow> bool) \<Rightarrow> 'a \<Rightarrow> 'a list \<Rightarrow> 'a list" where
  "insertBy lessFn x [] = [x]"
| "insertBy lessFn x (y # ys) = (if lessFn y x then y # insertBy lessFn x ys else x # y # ys)"

definition SliceStable :: "('a \<Rightarrow> 'a \<Rightarrow> bool) \<Rightarrow> 'a list \<Rightarrow> 'a list" where
  "SliceStable lessFn xs = foldr (insertBy lessFn) xs []"

text \<open>The comparison closure that \<open>GetSkylinePods\<close> passes to \<open>sort.SliceStable\<close>.\<close>

definition skylineLess :: "'b PodResource_scheme \<Rightarrow> 'b PodResource_scheme \<Rightarrow> bool" where
  "skylineLess a b =
     (if MilliCpu a < MilliCpu b then True
      else if MilliCpu a = MilliCpu b then MilliGpu a < MilliGpu b
      else False)"

text \<open>The sweep: the second loop of \<open>GetSkylinePods\<close>, \<open>skylinePods\<close> being the accumulator.\<close>

fun skylineSweep ::
  "'b PodResource_scheme list \<Rightarrow> 'b PodResource_scheme list \<Rightarrow> 'b PodResource_scheme list" where
  "skylineSweep skylinePods [] = skylinePods"
| "skylineSweep skylinePods (p # rest) =
     (let num = length skylinePods in
      if num = 0 \<or> (MilliCpu p > MilliCpu (skylinePods ! (num - 1))
                    \<and> MilliGpu p < MilliGpu (skylinePods ! (num - 1)))
      then skylineSweep (skylinePods @ [p]) rest
      else skylineSweep skylinePods rest)"

text \<open>
  \<open>GetSkylinePods\<close>. \<open>GetPodResource\<close> (pod object to \<open>PodResource\<close>) is not under
  \<open>src/\<close>; it is the parameter \<open>getPodResource\<close>, and the pod objects are of any type.
\<close>

definition GetSkylinePods ::
  "('pod \<Rightarrow> 'b PodResource_scheme) \<Rightarrow> 'pod list \<Rightarrow> 'b PodResource_scheme list" where
  "GetSkylinePods getPodResource allPods =
     skylineSweep [] (SliceStable skylineLess (map getPodResource allPods))"

text \<open>
  The order of the spec's data model (the skyline is the frontier "under the partial
  order strictly more CPU AND strictly less GPU", written \<open>(cpu\<up>, gpu\<down>)\<close>): \<open>a\<close>
  dominates \<open>b\<close> when it asks for strictly more CPU and strictly less GPU.
\<close>

definition dominates :: "'b PodResource_scheme \<Rightarrow> 'b PodResource_scheme \<Rightarrow> bool" where
  "dominates a b \<longleftrightarrow> MilliCpu a > MilliCpu b \<and> MilliGpu a < MilliGpu b"


section \<open>Greed queue (greed.go)\<close>

text \<open>
  A pod as \<open>GreedQueue\<close> reads it: \<open>pod.Spec.NodeName\<close> and the result of
  \<open>resourcehelper.PodRequestsAndLimits(pod)\<close> (a Kubernetes library function), a map
  from resource names to quantities. Quantities are held by the value that
  \<open>AsApproximateFloat64\<close> gives; \<open>float64\<close> is modelled by \<open>real\<close>. A
  \<open>corev1.ResourceList\<close> is a map from resource names (strings) to quantities.
\<close>

record Pod =
  SpecNodeName :: string
  Requests :: "string \<rightharpoonup> real"

record GreedQueue =
  pods :: "Pod list"
  totalResource :: "string \<rightharpoonup> real"

definition Share :: "real \<Rightarrow> real \<Rightarrow> real" where
  "Share alloc totalRes =
     (if totalRes = 0 then (if alloc = 0 then 0 else 1) else alloc / totalRes)"

text \<open>
  Indexing a Go map with a missing key gives the zero value, here the zero quantity.
\<close>

definition quantityAt :: "(string \<rightharpoonup> real) \<Rightarrow> string \<Rightarrow> real" where
  "quantityAt m resourceName = (case m resourceName of None \<Rightarrow> 0 | Some q \<Rightarrow> q)"

text \<open>
  \<open>calculatePodShare\<close>. Go leaves the order in which \<open>range\<close> visits the keys of a
  map open; \<open>rangeOrder\<close> is the order of one run over \<open>greed.totalResource\<close>.
\<close>

definition calculatePodShare :: "GreedQueue \<Rightarrow> string list \<Rightarrow> Pod \<Rightarrow> real" where
  "calculatePodShare greed rangeOrder pod =
     (if Requests pod = Map.empty then 0
      else foldl (\<lambda>res resourceName.
             let share = Share (quantityAt (Requests pod) resourceName)
                               (quantityAt (totalResource greed) resourceName)
             in if share > res then share else res) 0 rangeOrder)"

text \<open>
  \<open>Less\<close>; \<open>None\<close> is the panic of an index out of range.
\<close>

definition Less :: "GreedQueue \<Rightarrow> string list \<Rightarrow> nat \<Rightarrow> nat \<Rightarrow> bool option" where
  "Less greed rangeOrder i j =
     (if i \<ge> length (pods greed) then None
      else if length (SpecNodeName (pods greed ! i)) \<noteq> 0 then Some True
      else if j \<ge> length (pods greed) then None
      else if length (SpecNodeName (pods greed ! j)) \<noteq> 0 then Some False
      else Some (calculatePodShare greed rangeOrder (pods greed ! i)
                 > calculatePodShare greed rangeOrder (pods greed ! j)))"

text \<open>
  The dominant share in the claim's words, with the two cases that \<open>Share\<close> and
  \<open>calculatePodShare\<close> add: the largest share over the resources of the cluster
  total, never below 0.
\<close>

definition dominantShare :: "GreedQueue \<Rightarrow> Pod \<Rightarrow> real" where
  "dominantShare greed pod =
     (if Requests pod = Map.empty then 0
      else Max (insert 0 ((\<lambda>resourceName.
              Share (quantityAt (Requests pod) resourceName)
                    (quantityAt (totalResource greed) resourceName))
            ` dom (totalResource greed))))"


section \<open>Fragmentation amount (frag.go)\<close>

text \<open>
  \<open>simontype.TargetPod\<close>: a pod request and its share of the workload. \<open>float64\<close> is
  modelled by \<open>real\<close>, \<open>float64(x)\<close> of an \<open>int64\<close> by \<open>real_of_int\<close>.
\<close>

record 'b TargetPod =
  TargetPodResource :: "'b PodResource_scheme"
  Percentage :: real

text \<open>
  \<open>FragAmount\<close>. The field \<open>Data\<close> is a Go slice. Where a function owns the only
  reference to the backing array (\<open>NodeGpuShareFragAmount\<close> allocates it), the slice is
  modelled by its contents, type \<open>real list FragAmount\<close>; the aliasing of
  \<open>AddGamma\<close>'s value receiver is modelled further down with slice headers into a store.
  The field \<open>NodeName\<close> of \<open>FragAmount\<close> is called \<open>FaNodeName\<close> here, \<open>NodeName\<close> being
  the field of \<open>NodeResource\<close>.
\<close>

record 'd FragAmount =
  FaNodeName :: string
  Data :: 'd

datatype error = Errorf string

definition NewFragAmount :: "string \<Rightarrow> real list \<Rightarrow> real list FragAmount" where
  "NewFragAmount nodeName data = \<lparr>FaNodeName = nodeName, Data = data\<rparr>"

text \<open>
  \<open>AddByFragType\<close>: the receiver is passed by value, but the element write
  \<open>fa.Data[index] += amount\<close> goes to the backing array the caller shares, so the
  caller's \<open>FragAmount\<close> is the one returned here. The outer \<open>None\<close> is the panic of an
  index out of range; the inner option is Go's \<open>error\<close> (\<open>None\<close> for \<open>nil\<close>).
\<close>

definition AddByFragType ::
  "real list FragAmount \<Rightarrow> string \<Rightarrow> real \<Rightarrow> (real list FragAmount \<times> error option) option" where
  "AddByFragType fa fragType amount =
     (if amount < 0 then Some (fa, Some (Errorf ''bad freq''))
      else case FragRatioDataMap fragType of
        None \<Rightarrow> Some (fa, Some (Errorf ''bad fragType''))
      | Some index \<Rightarrow>
          if index < length (Data fa)
          then Some (fa\<lparr>Data := (Data fa)[index := Data fa ! index + amount]\<rparr>, None)
          else None)"

definition GetGpuMilliLeftTotal :: "'a NodeResource_scheme \<Rightarrow> int" where
  "GetGpuMilliLeftTotal nodeRes =
     foldl (\<lambda>gpuMilliLeftTotal gpuMilliLeft. wrap64 (gpuMilliLeftTotal + gpuMilliLeft))
       0 (MilliGpuLeftList nodeRes)"

definition GetGpuFragMilliByNodeResAndPodRes ::
  "'a NodeResource_scheme \<Rightarrow> 'b PodResource_scheme \<Rightarrow> int" where
  "GetGpuFragMilliByNodeResAndPodRes nodeRes podRes =
     foldl (\<lambda>gpuFragMilli milliGpuLeft.
              if milliGpuLeft < MilliGpu podRes then wrap64 (gpuFragMilli + milliGpuLeft)
              else gpuFragMilli)
       0 (MilliGpuLeftList nodeRes)"

text \<open>
  The body of the loop of \<open>NodeGpuShareFragAmount\<close> for one typical pod. The errors that
  \<open>AddByFragType\<close> returns are dropped, as in the source; a panic ends the function.
\<close>

definition shareFragBody ::
  "('a NodeResource_scheme \<Rightarrow> 'b PodResource_scheme \<Rightarrow> bool) \<Rightarrow> 'a NodeResource_scheme \<Rightarrow>
   real list FragAmount \<Rightarrow> 'b TargetPod \<Rightarrow> real list FragAmount option" where
  "shareFragBody isNodeAccessibleToPod nodeRes fragAmount pod =
     (let freq = Percentage pod in
      if freq < 0 \<or> freq > 1 then Some fragAmount
      else
        let fragType = GetNodePodFrag isNodeAccessibleToPod nodeRes (TargetPodResource pod);
            gpuMilliLeftTotal = GetGpuMilliLeftTotal nodeRes
        in
          if fragType = Q3Satisfied then
            (let gpuFragMilli = GetGpuFragMilliByNodeResAndPodRes nodeRes (TargetPodResource pod) in
             case AddByFragType fragAmount Q2LackGpu (freq * real_of_int gpuFragMilli) of
               None \<Rightarrow> None
             | Some (fragAmount1, _) \<Rightarrow>
                (case AddByFragType fragAmount1 Q3Satisfied
                        (freq * real_of_int (wrap64 (gpuMilliLeftTotal - gpuFragMilli))) of
                   None \<Rightarrow> None
                 | Some (fragAmount2, _) \<Rightarrow> Some fragAmount2))
          else
            (case AddByFragType fragAmount fragType (freq * real_of_int gpuMilliLeftTotal) of
               None \<Rightarrow> None
             | Some (fragAmount1, _) \<Rightarrow> Some fragAmount1))"

fun shareFragLoop ::
  "('a NodeResource_scheme \<Rightarrow> 'b PodResource_scheme \<Rightarrow> bool) \<Rightarrow> 'a NodeResource_scheme \<Rightarrow>
   real list FragAmount \<Rightarrow> 'b TargetPod list \<Rightarrow> real list FragAmount option" where
  "shareFragLoop isNodeAccessibleToPod nodeRes fragAmount [] = Some fragAmount"
| "shareFragLoop isNodeAccessibleToPod nodeRes fragAmount (pod # rest) =
     (case shareFragBody isNodeAccessibleToPod nodeRes fragAmount pod of
        None \<Rightarrow> None
      | Some fragAmount' \<Rightarrow> shareFragLoop isNodeAccessibleToPod nodeRes fragAmount' rest)"

definition NodeGpuShareFragAmount ::
  "('a NodeResource_scheme \<Rightarrow> 'b PodResource_scheme \<Rightarrow> bool) \<Rightarrow> 'a NodeResource_scheme \<Rightarrow>
   'b TargetPod list \<Rightarrow> real list FragAmount option" where
  "NodeGpuShareFragAmount isNodeAccessibleToPod nodeRes typicalPods =
     (let data = replicate (length FragRatioDataList) 0;
          fragAmount = NewFragAmount (NodeName nodeRes) data
      in shareFragLoop isNodeAccessibleToPod nodeRes fragAmount typicalPods)"

text \<open>
  What one typical pod adds to the entry of index \<open>c\<close>, in the words of the claim:
  with category \<open>Q3Satisfied\<close> the sum of the per-GPU millis below the request, times
  the pod's share, goes to \<open>Q2LackGpu\<close> and the rest of the remaining millis, times the
  share, to \<open>Q3Satisfied\<close>; with any other category all remaining millis, times the
  share, go to that category.
\<close>

definition fragContribution ::
  "('a NodeResource_scheme \<Rightarrow> 'b PodResource_scheme \<Rightarrow> bool) \<Rightarrow> 'a NodeResource_scheme \<Rightarrow>
   'b TargetPod \<Rightarrow> nat \<Rightarrow> real" where
  "fragContribution isNodeAccessibleToPod nodeRes pod c =
     (let f = Percentage pod;
          remaining = sum_list (MilliGpuLeftList nodeRes);
          fragment = sum_list (filter (\<lambda>g. g < MilliGpu (TargetPodResource pod))
                                 (MilliGpuLeftList nodeRes));
          category = GetNodePodFrag isNodeAccessibleToPod nodeRes (TargetPodResource pod)
      in if category = Q3Satisfied then
           (if FragRatioDataMap Q2LackGpu = Some c then f * real_of_int fragment
            else if FragRatioDataMap Q3Satisfied = Some c
              then f * real_of_int (remaining - fragment)
            else 0)
         else if FragRatioDataMap category = Some c then f * real_of_int remaining
         else 0)"


section \<open>Fragmentation ratio and the Bellman value (frag.go)\<close>

text \<open>
  \<open>FragRatio\<close>: a struct with the one field \<open>Data\<close> (called \<open>RatioData\<close> here, \<open>Data\<close>
  being the field of \<open>FragAmount\<close>), a slice that \<open>NodeGpuFragRatio\<close> allocates and is
  the only one to write.
\<close>

record FragRatio =
  RatioData :: "real list"

definition AddRatio :: "FragRatio \<Rightarrow> string \<Rightarrow> real \<Rightarrow> (FragRatio \<times> error option) option" where
  "AddRatio fr fragType freq =
     (if freq < 0 \<or> freq > 1 then Some (fr, Some (Errorf ''bad freq''))
      else case FragRatioDataMap fragType of
        None \<Rightarrow> Some (fr, Some (Errorf ''bad fragType''))
      | Some index \<Rightarrow>
          if index < length (RatioData fr)
          then Some (fr\<lparr>RatioData := (RatioData fr)[index := RatioData fr ! index + freq]\<rparr>, None)
          else None)"

fun fragRatioLoop ::
  "('a NodeResource_scheme \<Rightarrow> 'b PodResource_scheme \<Rightarrow> bool) \<Rightarrow> 'a NodeResource_scheme \<Rightarrow>
   FragRatio \<Rightarrow> 'b TargetPod list \<Rightarrow> FragRatio option" where
  "fragRatioLoop isNodeAccessibleToPod nodeRes fragRatio [] = Some fragRatio"
| "fragRatioLoop isNodeAccessibleToPod nodeRes fragRatio (pod # rest) =
     (let freq = Percentage pod in
      if freq < 0 \<or> freq > 1 then fragRatioLoop isNodeAccessibleToPod nodeRes fragRatio rest
      else
        let fragType = GetNodePodFrag isNodeAccessibleToPod nodeRes (TargetPodResource pod) in
        case AddRatio fragRatio fragType freq of
          None \<Rightarrow> None
        | Some (fragRatio', _) \<Rightarrow> fragRatioLoop isNodeAccessibleToPod nodeRes fragRatio' rest)"

definition NodeGpuFragRatio ::
  "('a NodeResource_scheme \<Rightarrow> 'b PodResource_scheme \<Rightarrow> bool) \<Rightarrow> 'a NodeResource_scheme \<Rightarrow>
   'b TargetPod list \<Rightarrow> FragRatio option" where
  "NodeGpuFragRatio isNodeAccessibleToPod nodeRes typicalPods =
     (let data = replicate (length FragRatioDataList) 0;
          fragRatio = \<lparr>RatioData = data\<rparr>
      in fragRatioLoop isNodeAccessibleToPod nodeRes fragRatio typicalPods)"

text \<open>
  \<open>FragRatioDataMap[name]\<close> as an expression: a missing key gives 0.
\<close>

definition fragIndex :: "string \<Rightarrow> nat" where
  "fragIndex name = (case FragRatioDataMap name of None \<Rightarrow> 0 | Some i \<Rightarrow> i)"

text \<open>
  \<open>FragRatioSumExceptQ3\<close>: the loop over \<open>i = 0 .. len(FragRatioDataMap) - 1\<close>; \<open>None\<close>
  is the panic of reading \<open>fr.Data[i]\<close> out of range.
\<close>

fun sumExceptQ3Loop :: "real list \<Rightarrow> nat list \<Rightarrow> real \<Rightarrow> real option" where
  "sumExceptQ3Loop d [] out = Some out"
| "sumExceptQ3Loop d (i # rest) out =
     (if i \<noteq> fragIndex Q3Satisfied
      then (if i < length d then sumExceptQ3Loop d rest (out + d ! i) else None)
      else sumExceptQ3Loop d rest out)"

definition FragRatioSumExceptQ3 :: "FragRatio \<Rightarrow> real option" where
  "FragRatioSumExceptQ3 fr = sumExceptQ3Loop (RatioData fr) [0..<length FragRatioDataList] 0"

text \<open>
  What the memoization map \<open>dp\<close> (a \<open>*sync.Map\<close>, from keys to \<open>interface{}\<close>) holds
  under a key: a \<open>float64\<close> or a value of another type. The keys are what
  \<open>nodeRes.Flatten\<close> returns, of any type \<open>'k\<close>.
\<close>

datatype dpValue = Float64 real | OtherValue

text \<open>
  The inner loop of \<open>NodeGpuFragBellman\<close> over the typical pods, threading \<open>pvSum\<close> and
  the map; \<open>bellman\<close> is the recursive call. \<open>Sub\<close> (a method of \<open>NodeResource\<close>, not
  under \<open>src/\<close>) is the parameter \<open>sub\<close>; like the Go method it returns a node and an
  error.
\<close>

fun pvSumLoop ::
  "('a NodeResource_scheme \<Rightarrow> ('k \<rightharpoonup> dpValue) \<Rightarrow> real \<Rightarrow> (real \<times> ('k \<rightharpoonup> dpValue)) option) \<Rightarrow>
   ('a NodeResource_scheme \<Rightarrow> 'b PodResource_scheme \<Rightarrow> 'a NodeResource_scheme \<times> error option) \<Rightarrow>
   'a NodeResource_scheme \<Rightarrow> real \<Rightarrow> real \<Rightarrow> 'b TargetPod list \<Rightarrow> real \<Rightarrow>
   ('k \<rightharpoonup> dpValue) \<Rightarrow> (real \<times> ('k \<rightharpoonup> dpValue)) option" where
  "pvSumLoop bellman sub nodeRes gpuMilliLeftTotal cumProb [] pvSum dp = Some (pvSum, dp)"
| "pvSumLoop bellman sub nodeRes gpuMilliLeftTotal cumProb (pod # rest) pvSum dp =
     (let p = Percentage pod in
      case sub nodeRes (TargetPodResource pod) of
        (newNodeRes, Some err) \<Rightarrow>
          pvSumLoop bellman sub nodeRes gpuMilliLeftTotal cumProb rest
            (pvSum + gpuMilliLeftTotal * p) dp
      | (newNodeRes, None) \<Rightarrow>
          (case bellman newNodeRes dp (cumProb * p) of
             None \<Rightarrow> None
           | Some (v, dp') \<Rightarrow>
               pvSumLoop bellman sub nodeRes gpuMilliLeftTotal cumProb rest (pvSum + v * p) dp'))"

text \<open>
  \<open>NodeGpuFragBellman\<close>. The recursion need not end (a typical pod without requests and
  with percentage 1 subtracts nothing), so the function takes fuel, the depth of
  recursion allowed; \<open>None\<close> is out of fuel (or a panic). The map \<open>dp\<close> is shared and
  updated in place: it is passed in and returned. \<open>nodeRes.Flatten("bellman")\<close> is the
  parameter \<open>flatten\<close>.
\<close>

fun NodeGpuFragBellman ::
  "nat \<Rightarrow> ('a NodeResource_scheme \<Rightarrow> 'b PodResource_scheme \<Rightarrow> bool) \<Rightarrow>
   ('a NodeResource_scheme \<Rightarrow> 'k) \<Rightarrow>
   ('a NodeResource_scheme \<Rightarrow> 'b PodResource_scheme \<Rightarrow> 'a NodeResource_scheme \<times> error option) \<Rightarrow>
   'a NodeResource_scheme \<Rightarrow> 'b TargetPod list \<Rightarrow> ('k \<rightharpoonup> dpValue) \<Rightarrow> real \<Rightarrow>
   (real \<times> ('k \<rightharpoonup> dpValue)) option" where
  "NodeGpuFragBellman 0 isNodeAccessibleToPod flatten sub nodeRes typicalPods dp cumProb = None"
| "NodeGpuFragBellman (Suc fuel) isNodeAccessibleToPod flatten sub nodeRes typicalPods dp cumProb =
     (let nodeResKey = flatten nodeRes in
      case dp nodeResKey of
        Some (Float64 frag) \<Rightarrow> Some (frag, dp)
      | _ \<Rightarrow>
        (let gpuMilliLeftTotal = real_of_int (GetGpuMilliLeftTotal nodeRes) in
         if gpuMilliLeftTotal = 0 then Some (0, dp)
         else if gpuMilliLeftTotal * cumProb < 1 then Some (0, dp)
         else
           let gamma = 1; delta = 999 / 1000 in
           case NodeGpuFragRatio isNodeAccessibleToPod nodeRes typicalPods of
             None \<Rightarrow> None
           | Some fragRatio \<Rightarrow>
              (case FragRatioSumExceptQ3 fragRatio of
                 None \<Rightarrow> None
               | Some fragRatioValue \<Rightarrow>
                  if fragRatioValue < delta then
                    (case pvSumLoop
                            (\<lambda>newNodeRes dp' cumProb'.
                               NodeGpuFragBellman fuel isNodeAccessibleToPod flatten sub
                                 newNodeRes typicalPods dp' cumProb')
                            sub nodeRes gpuMilliLeftTotal cumProb typicalPods 0 dp of
                       None \<Rightarrow> None
                     | Some (pvSum, dp') \<Rightarrow>
                         (let frag = 0 + pvSum * gamma in
                          Some (frag, dp'(nodeResKey \<mapsto> Float64 frag))))
                  else
                    (let frag = gpuMilliLeftTotal in
                     Some (frag, dp(nodeResKey \<mapsto> Float64 frag))))))"

section \<open>PWR score plugin (pwr_score.go)\<close>

text \<open>
  Constants of other packages: \<open>framework.MaxNodeScore\<close> and \<open>framework.MinNodeScore\<close>
  of the Kubernetes scheduler framework, and \<open>gpushareutils.MILLI\<close>, the millis of a
  whole GPU.
\<close>

definition MaxNodeScore :: int where "MaxNodeScore = 100"
definition MinNodeScore :: int where "MinNodeScore = 0"
definition MILLI :: int where "MILLI = 1000"

text \<open>
  Modelled from the spec: \<open>sigmoid\<close>, a function of package \<open>plugin\<close> whose file is not
  under \<open>src/\<close>. The spec maps the energy difference "to \<open>sigmoid(\<Delta>/1000) \<cdot> 100\<close>",
  a score in \<open>[0, 100]\<close>: the logistic function.
\<close>

definition sigmoid :: "real \<Rightarrow> real" where
  "sigmoid x = 1 / (1 + exp (- x))"

text \<open>Go's conversion \<open>int64(x)\<close> of a \<open>float64\<close> in the range of \<open>int64\<close>: towards zero.\<close>

definition int64_of_float64 :: "real \<Rightarrow> int" where
  "int64_of_float64 x = (if 0 \<le> x then \<lfloor>x\<rfloor> else \<lceil>x\<rceil>)"

text \<open>\<open>strconv.Itoa\<close> on an index (never negative): the decimal digits.\<close>

definition digitChar :: "nat \<Rightarrow> char" where
  "digitChar d = ''0123456789'' ! d"

function Itoa :: "nat \<Rightarrow> string" where
  "Itoa n = (if n < 10 then [digitChar n] else Itoa (n div 10) @ [digitChar (n mod 10)])"
  by pat_completeness auto
termination
  by (relation "measure (\<lambda>n. n)") auto

declare Itoa.simps [simp del]

text \<open>
  Case 1 of \<open>calculatePWRShareFragExtendScore\<close>: the loop over the GPU indices of the
  node, with \<open>score\<close> and \<open>gpuId\<close> as the state. \<open>GetEnergyConsumptionNode\<close> (a method
  of \<open>NodeResource\<close>, not under \<open>src/\<close>) is the parameter \<open>energy\<close>; \<open>nodeRes.Copy()\<close>
  is the node itself, values being immutable here.
\<close>

fun pwrShareLoop ::
  "('a NodeResource_scheme \<Rightarrow> real \<times> real) \<Rightarrow> 'a NodeResource_scheme \<Rightarrow>
   'b PodResource_scheme \<Rightarrow> real \<Rightarrow> nat list \<Rightarrow> int \<times> string \<Rightarrow> int \<times> string" where
  "pwrShareLoop energy nodeRes podRes old_node_energy [] (score, gpuId) = (score, gpuId)"
| "pwrShareLoop energy nodeRes podRes old_node_energy (i # rest) (score, gpuId) =
     (if MilliGpuLeftList nodeRes ! i \<ge> MilliGpu podRes then
        (let newNodeRes = nodeRes
               \<lparr>MilliCpuLeft := wrap64 (MilliCpuLeft nodeRes - MilliCpu podRes),
                MilliGpuLeftList := (MilliGpuLeftList nodeRes)
                   [i := wrap64 (MilliGpuLeftList nodeRes ! i - MilliGpu podRes)]\<rparr>;
             (new_CPU_energy, new_GPU_energy) = energy newNodeRes;
             new_node_energy = new_CPU_energy + new_GPU_energy;
             fragScore = int64_of_float64
               (sigmoid ((old_node_energy - new_node_energy) / 1000) * real_of_int MaxNodeScore)
         in if gpuId = '''' \<or> fragScore > score
            then pwrShareLoop energy nodeRes podRes old_node_energy rest (fragScore, Itoa i)
            else pwrShareLoop energy nodeRes podRes old_node_energy rest (score, gpuId))
      else pwrShareLoop energy nodeRes podRes old_node_energy rest (score, gpuId))"

text \<open>
  \<open>calculatePWRShareFragExtendScore\<close>. \<open>Sub\<close> and \<open>simontype.AllocateExclusiveGpuId\<close>
  are the parameters \<open>sub\<close> and \<open>allocateExclusiveGpuId\<close>; the error of \<open>Sub\<close> is
  dropped, as in the source. The argument \<open>typicalPods\<close> is not used by the source.
\<close>

definition calculatePWRShareFragExtendScore ::
  "('a NodeResource_scheme \<Rightarrow> real \<times> real) \<Rightarrow>
   ('a NodeResource_scheme \<Rightarrow> 'b PodResource_scheme \<Rightarrow> 'a NodeResource_scheme \<times> error option) \<Rightarrow>
   ('a NodeResource_scheme \<Rightarrow> 'b PodResource_scheme \<Rightarrow> string) \<Rightarrow>
   'a NodeResource_scheme \<Rightarrow> 'b PodResource_scheme \<Rightarrow> 'b TargetPod list \<Rightarrow> int \<times> string" where
  "calculatePWRShareFragExtendScore energy sub allocateExclusiveGpuId nodeRes podRes typicalPods =
     (let (old_CPU_energy, old_GPU_energy) = energy nodeRes;
          old_node_energy = old_CPU_energy + old_GPU_energy
      in if GpuNumber podRes = 1 \<and> MilliGpu podRes < MILLI then
           pwrShareLoop energy nodeRes podRes old_node_energy
             [0..<length (MilliGpuLeftList nodeRes)] (0, '''')
         else
           (let (newNodeRes, _) = sub nodeRes podRes;
                (new_CPU_energy, new_GPU_energy) = energy newNodeRes;
                new_node_energy = new_CPU_energy + new_GPU_energy
            in (int64_of_float64
                  (sigmoid ((old_node_energy - new_node_energy) / 1000) * real_of_int MaxNodeScore),
                allocateExclusiveGpuId nodeRes podRes)))"

text \<open>
  \<open>Score\<close> (the messages of the error statuses are shortened). The pod is read through \<open>resourcehelper.PodRequestsAndLimits\<close> (field
  \<open>Requests\<close> of the pod record) and \<open>utils.GetPodResource\<close>; the node through
  \<open>utils.GetNodeResourceViaHandleAndName\<close>, which returns \<open>nil\<close> when it fails. These
  two and \<open>utils.IsNodeAccessibleToPod\<close> are parameters.
\<close>

datatype status = Success | Error string

definition Score ::
  "('a NodeResource_scheme \<Rightarrow> real \<times> real) \<Rightarrow>
   ('a NodeResource_scheme \<Rightarrow> 'b PodResource_scheme \<Rightarrow> 'a NodeResource_scheme \<times> error option) \<Rightarrow>
   ('a NodeResource_scheme \<Rightarrow> 'b PodResource_scheme \<Rightarrow> string) \<Rightarrow>
   (string \<Rightarrow> 'a NodeResource_scheme option) \<Rightarrow>
   ('p Pod_scheme \<Rightarrow> 'b PodResource_scheme) \<Rightarrow>
   ('a NodeResource_scheme \<Rightarrow> 'b PodResource_scheme \<Rightarrow> bool) \<Rightarrow>
   'b TargetPod list \<Rightarrow> 'p Pod_scheme \<Rightarrow> string \<Rightarrow> int \<times> status" where
  "Score energy sub allocateExclusiveGpuId getNodeResourceViaHandleAndName getPodResource
         isNodeAccessibleToPod typicalPods p nodeName =
     (if Requests p = Map.empty then (MaxNodeScore, Success)
      else case getNodeResourceViaHandleAndName nodeName of
        None \<Rightarrow> (MinNodeScore, Error ''failed to get nodeRes'')
      | Some nodeRes \<Rightarrow>
          (let podRes = getPodResource p in
           if \<not> isNodeAccessibleToPod nodeRes podRes
           then (MinNodeScore, Error ''Node does not match GPU type request of pod'')
           else
             (let (score, _) = calculatePWRShareFragExtendScore energy sub
                                 allocateExclusiveGpuId nodeRes podRes typicalPods
              in (score, Success))))"

section \<open>AddGamma and the value receiver (frag.go)\<close>

text \<open>
  \<open>AddGamma\<close> has a value receiver: the method works on a copy of the caller's
  \<open>FragAmount\<close>, whose \<open>Data\<close> is a slice header (backing array, offset, length)
  that shares the backing array with the caller's. What the caller sees after the call
  depends on this aliasing, so arrays live in a store here: \<open>cells\<close> maps an address
  to the array allocated there, \<open>next\<close> is the next free address. A slice of length 0
  (as \<open>nil\<close>) shows no element whatever its address.
\<close>

record slice =
  ptr :: nat
  off :: nat
  len :: nat

record store =
  cells :: "nat \<Rightarrow> real list"
  "next" :: nat

definition sliceGet :: "store \<Rightarrow> slice \<Rightarrow> nat \<Rightarrow> real" where
  "sliceGet st s i = cells st (ptr s) ! (off s + i)"

definition sliceSet :: "store \<Rightarrow> slice \<Rightarrow> nat \<Rightarrow> real \<Rightarrow> store" where
  "sliceSet st s i v = st\<lparr>cells := (cells st)(ptr s := (cells st (ptr s))[off s + i := v])\<rparr>"

text \<open>The elements a holder of the slice header \<open>s\<close> sees in the store.\<close>

definition sliceView :: "store \<Rightarrow> slice \<Rightarrow> real list" where
  "sliceView st s = take (len s) (drop (off s) (cells st (ptr s)))"

text \<open>\<open>make([]float64, n)\<close>: a fresh array of \<open>n\<close> zeros and the slice of all of it.\<close>

definition makeSlice :: "store \<Rightarrow> nat \<Rightarrow> store \<times> slice" where
  "makeSlice st n =
     (st\<lparr>cells := (cells st)(next st := replicate n 0), next := next st + 1\<rparr>,
      \<lparr>ptr = next st, off = 0, len = n\<rparr>)"

text \<open>
  \<open>AddGamma\<close>: \<open>fa\<close> is the method's copy of the receiver. The method returns the store
  and the error; the copy is dropped at return, the caller keeps the header it passed.
  Both loops run over \<open>i = 0 .. len(fa.Data) - 1\<close>, within the slices' lengths.
\<close>

definition AddGamma ::
  "store \<Rightarrow> slice FragAmount \<Rightarrow> slice FragAmount \<Rightarrow> real \<Rightarrow> store \<times> error option" where
  "AddGamma st fa faOther gamma =
     (let (st1, fa1) =
        (if len (Data fa) = 0 then
           (let (st', d) = makeSlice st (length FragRatioDataList);
                fa' = fa\<lparr>Data := d\<rparr>;
                st'' = foldl (\<lambda>s i. sliceSet s (Data fa') i 0) st' [0..<length FragRatioDataList]
            in (st'', fa'))
         else (st, fa))
      in if len (Data fa1) \<noteq> len (Data faOther)
         then (st1, Some (Errorf ''this does not match the other''))
         else
           (foldl (\<lambda>s i. sliceSet s (Data fa1) i
                            (sliceGet s (Data fa1) i + gamma * sliceGet s (Data faOther) i))
              st1 [0..<len (Data fa1)],
            None))"

section \<open>Typical pods (frag.go)\<close>

text \<open>
  \<open>v1alpha1.TypicalPodsConfig\<close>, with the fields that \<open>GetTypicalPods\<close> reads.
\<close>

record TypicalPodsConfig =
  IsInvolvedCpuPods :: bool
  GpuResWeight :: real
  PodPopularityThreshold :: int
  PodIncreaseStep :: int

text \<open>
  In \<open>GetTypicalPods\<close> the flow of control depends on sums and quotients of \<open>float64\<close>
  values, so its arithmetic takes the rounding as a parameter: every \<open>float64\<close>
  operation is the exact operation on the reals followed by \<open>rnd\<close>. With \<open>rnd\<close> the
  identity this is exact arithmetic; \<open>binary64\<close> below is IEEE 754 rounding.

  A Go map is kept as the list of its entries (keys distinct). The order in which
  \<open>range\<close> visits a map is left open by Go and differs between runs: \<open>rangeOrder\<close>
  gives, for the entries of a map, the order of one run.
\<close>

text \<open>
  The first loop of \<open>GetTypicalPods\<close>, for one pod: the state is the counting map
  \<open>tgtPodResCntMap\<close> and \<open>total\<close>. (\<open>podGpuCntMap\<close> is only logged and is left out.)
\<close>

definition countPod ::
  "(real \<Rightarrow> real) \<Rightarrow> TypicalPodsConfig \<Rightarrow> ('pod \<Rightarrow> 'b PodResource_scheme) \<Rightarrow>
   ('b PodResource_scheme \<times> real) list \<times> real \<Rightarrow> 'pod \<Rightarrow>
   ('b PodResource_scheme \<times> real) list \<times> real" where
  "countPod rnd config getPodResource state pod =
     (let (tgtPodResCntMap, total) = state;
          tgtPodRes = getPodResource pod
      in if \<not> IsInvolvedCpuPods config \<and> GpuNumber tgtPodRes = 0 then state
         else
           (let weightedCnt =
                  (if GpuResWeight config > 0 \<and> MilliGpu tgtPodRes = MILLI
                   then rnd (1 + rnd (real_of_int (GpuNumber tgtPodRes) * GpuResWeight config))
                   else 1)
            in ((case map_of tgtPodResCntMap tgtPodRes of
                   Some cnt \<Rightarrow> AList.update tgtPodRes (rnd (cnt + weightedCnt)) tgtPodResCntMap
                 | None \<Rightarrow> AList.update tgtPodRes weightedCnt tgtPodResCntMap),
                rnd (total + weightedCnt))))"

text \<open>
  Modelled from the spec: the methods \<open>Len\<close>, \<open>Less\<close> and \<open>Swap\<close> of
  \<open>simontype.TargetPodList\<close> are not under \<open>src/\<close>. The spec has the result "sorted by
  descending count" after \<open>sort.Sort(sort.Reverse(pl))\<close>, so \<open>Less\<close> compares the
  counts (field \<open>Percentage\<close>) ascending.
\<close>

definition TargetPodListLess :: "'b TargetPod \<Rightarrow> 'b TargetPod \<Rightarrow> bool" where
  "TargetPodListLess a b \<longleftrightarrow> Percentage a < Percentage b"

text \<open>
  \<open>sort.Sort\<close> of Go's standard library is not stable. On a slice of at most 6 elements
  it is, in every Go release, the insertion sort below (at most 12 elements since Go
  1.19): element \<open>j\<close> moves left while \<open>Less(j, j - 1)\<close>. \<open>bubbleLeft\<close> is that inner loop on
  the sorted prefix, held in reverse; \<open>sort.Reverse\<close> swaps the arguments of \<open>Less\<close>.
\<close>

fun bubbleLeft :: "('a \<Rightarrow> 'a \<Rightarrow> bool) \<Rightarrow> 'a \<Rightarrow> 'a list \<Rightarrow> 'a list" where
  "bubbleLeft lessFn x [] = [x]"
| "bubbleLeft lessFn x (y # ys) =
     (if lessFn x y then y # bubbleLeft lessFn x ys else x # y # ys)"

definition insertionSort :: "('a \<Rightarrow> 'a \<Rightarrow> bool) \<Rightarrow> 'a list \<Rightarrow> 'a list" where
  "insertionSort lessFn xs = rev (foldl (\<lambda>sortedRev x. bubbleLeft lessFn x sortedRev) [] xs)"

definition sortReverseShort :: "'b TargetPod list \<Rightarrow> 'b TargetPod list" where
  "sortReverseShort pl = insertionSort (\<lambda>x y. TargetPodListLess y x) pl"

text \<open>
  \<open>SortTargetPodInDecreasingCount\<close>; \<open>sortReverse\<close> is \<open>sort.Sort(sort.Reverse(pl))\<close>.
\<close>

definition SortTargetPodInDecreasingCount ::
  "(('b PodResource_scheme \<times> real) list \<Rightarrow> ('b PodResource_scheme \<times> real) list) \<Rightarrow>
   ('b TargetPod list \<Rightarrow> 'b TargetPod list) \<Rightarrow>
   ('b PodResource_scheme \<times> real) list \<Rightarrow> 'b TargetPod list" where
  "SortTargetPodInDecreasingCount rangeOrder sortReverse tgtPodResMap =
     (let pl = map (\<lambda>(k, v). \<lparr>TargetPodResource = k, Percentage = v\<rparr>) (rangeOrder tgtPodResMap)
      in sortReverse pl)"

text \<open>
  The inner loop of the selection: the state is \<open>i\<close>, \<open>cumNumPods\<close> and \<open>tgtPodList\<close>.
\<close>

function selectInner ::
  "(real \<Rightarrow> real) \<Rightarrow> real \<Rightarrow> int \<Rightarrow> nat \<times> real \<times> 'b TargetPod list \<Rightarrow>
   nat \<times> real \<times> 'b TargetPod list" where
  "selectInner rnd totalCnt podResNum (i, cumNumPods, tgtPodList) =
     (if int i < podResNum \<and> i < length tgtPodList then
        (let numPods = Percentage (tgtPodList ! i);
             cumNumPods' = rnd (cumNumPods + numPods);
             tgtPodList' = tgtPodList
               [i := (tgtPodList ! i)\<lparr>Percentage := rnd (Percentage (tgtPodList ! i) / totalCnt)\<rparr>]
         in selectInner rnd totalCnt podResNum (i + 1, cumNumPods', tgtPodList'))
      else (i, cumNumPods, tgtPodList))"
  by pat_completeness auto
termination
  by (relation "measure (\<lambda>(rnd, totalCnt, podResNum, i, cumNumPods, tgtPodList).
                   length tgtPodList - i)") auto

declare selectInner.simps [simp del]

text \<open>
  The outer loop of the selection, which runs while \<open>cumNumPods < expectedNumPods\<close>. It
  need not end: not returning is the value \<open>None\<close>. \<open>podResNum\<close> is a Go \<open>int\<close>.
  \<open>simontype.DefaultTypicalPodIncreaseStep\<close> is not under \<open>src/\<close>: parameter
  \<open>defaultStep\<close>.
\<close>

partial_function (option) selectOuter ::
  "(real \<Rightarrow> real) \<Rightarrow> TypicalPodsConfig \<Rightarrow> int \<Rightarrow> real \<Rightarrow> real \<Rightarrow>
   nat \<times> int \<times> real \<times> 'b TargetPod list \<Rightarrow> (nat \<times> int \<times> real \<times> 'b TargetPod list) option" where
  "selectOuter rnd config defaultStep totalCnt expectedNumPods state =
     (let (i, podResNum, cumNumPods, tgtPodList) = state in
      if cumNumPods < expectedNumPods then
        (let podResNum' =
               (if PodIncreaseStep config > 0 then wrap64 (podResNum + PodIncreaseStep config)
                else wrap64 (podResNum + defaultStep));
             (i', cumNumPods', tgtPodList') =
               selectInner rnd totalCnt podResNum' (i, cumNumPods, tgtPodList)
         in selectOuter rnd config defaultStep totalCnt expectedNumPods
              (i', podResNum', cumNumPods', tgtPodList'))
      else Some state)"

text \<open>
  \<open>GetTypicalPods\<close>. \<open>GetPodResource\<close> and \<open>simontype.DefaultTypicalPodPopularityThreshold\<close>
  are not under \<open>src/\<close>: parameters \<open>getPodResource\<close> and \<open>defaultThreshold\<close>.
\<close>

definition GetTypicalPods ::
  "(real \<Rightarrow> real) \<Rightarrow>
   (('b PodResource_scheme \<times> real) list \<Rightarrow> ('b PodResource_scheme \<times> real) list) \<Rightarrow>
   ('b TargetPod list \<Rightarrow> 'b TargetPod list) \<Rightarrow>
   ('pod \<Rightarrow> 'b PodResource_scheme) \<Rightarrow> int \<Rightarrow> int \<Rightarrow>
   'pod list \<Rightarrow> TypicalPodsConfig \<Rightarrow> 'b TargetPod list option" where
  "GetTypicalPods rnd rangeOrder sortReverse getPodResource defaultThreshold defaultStep
       allPods config =
     (let (tgtPodResCntMap, total) = foldl (countPod rnd config getPodResource) ([], 0) allPods;
          tgtPodList = SortTargetPodInDecreasingCount rangeOrder sortReverse tgtPodResCntMap;
          expectedNumPods =
            (if PodPopularityThreshold config > 0
             then rnd (rnd (real_of_int (PodPopularityThreshold config) * total) / 100)
             else rnd (rnd (real_of_int defaultThreshold * total) / 100))
      in case selectOuter rnd config defaultStep total expectedNumPods (0, 0, 0, tgtPodList) of
           None \<Rightarrow> None
         | Some (i, podResNum, cumNumPods, tgtPodList') \<Rightarrow>
             if i \<ge> length tgtPodList' then Some tgtPodList'
             else
               Some (map (\<lambda>pod. pod\<lparr>Percentage :=
                                  rnd (Percentage pod / rnd (cumNumPods / total))\<rparr>)
                         (take i tgtPodList')))"

text \<open>
  IEEE 754 binary64 rounding of a real number, to nearest with ties to even, 53 bits of
  significand. The exponent is not bounded here: this is \<open>float64\<close> rounding wherever
  the result is a normal number (no overflow, no subnormal), as all values below are.
\<close>

definition roundHalfEven :: "real \<Rightarrow> int" where
  "roundHalfEven y =
     (let f = \<lfloor>y\<rfloor> in
      if y - of_int f < 1 / 2 then f
      else if y - of_int f > 1 / 2 then f + 1
      else if even f then f else f + 1)"

definition binary64 :: "real \<Rightarrow> real" where
  "binary64 x =
     (if x = 0 then 0
      else
        (let e = \<lfloor>log 2 \<bar>x\<bar>\<rfloor>;
             ulp = 2 powi (e - 52)
         in of_int (roundHalfEven (x / ulp)) * ulp))"

section \<open>Properties\<close>

subsection \<open>Integers and category names\<close>

lemma wrap64_id: "is_int64 x \<Longrightarrow> wrap64 x = x"
  by (simp add: wrap64_def is_int64_def)

lemma frag_names_distinct:
  "distinct [Q1LackBoth, Q2LackGpu, Q3Satisfied, Q4LackCpu, XLSatisfied, XRLackCPU, NoAccess]"
  by (simp add: frag_names)

subsection \<open>CanNodeHostPodOnGpuMemory and GetNodePodFrag\<close>

text \<open>The number of GPUs of the node whose remaining millis cover the pod's request.\<close>

definition fittingGpus :: "'a NodeResource_scheme \<Rightarrow> 'b PodResource_scheme \<Rightarrow> nat" where
  "fittingGpus nodeRes podRes =
     length (filter (\<lambda>g. MilliGpu podRes \<le> g) (MilliGpuLeftList nodeRes))"

lemma canHostLoop_pos:
  "0 < r \<Longrightarrow> r < 2 ^ 63 \<Longrightarrow>
   canHostLoop r mg xs \<longleftrightarrow> r \<le> int (length (filter (\<lambda>g. mg \<le> g) xs))"
proof (induction xs arbitrary: r)
  case Nil
  then show ?case by simp
next
  case (Cons x xs)
  show ?case
  proof (cases "mg \<le> x")
    case False
    with Cons show ?thesis by simp
  next
    case True
    have w: "wrap64 (r - 1) = r - 1"
      using Cons.prems by (intro wrap64_id) (simp add: is_int64_def)
    show ?thesis
    proof (cases "r = 1")
      case True
      with \<open>mg \<le> x\<close> w show ?thesis by simp
    next
      case False
      with Cons.prems have "0 < r - 1" "r - 1 < 2 ^ 63" by simp_all
      from Cons.IH [OF this] \<open>mg \<le> x\<close> w False Cons.prems show ?thesis
        by (auto simp: Let_def)
    qed
  qed
qed

lemma canHostLoop_nonpos:
  "r \<le> 0 \<Longrightarrow> - (2 ^ 63) < r \<Longrightarrow>
   canHostLoop r mg xs \<longleftrightarrow> 1 \<le> length (filter (\<lambda>g. mg \<le> g) xs)"
proof (induction xs)
  case Nil
  then show ?case by simp
next
  case (Cons x xs)
  have "wrap64 (r - 1) = r - 1"
    using Cons.prems by (intro wrap64_id) (simp add: is_int64_def)
  with Cons show ?case by (simp add: Let_def)
qed

text \<open>
  C1. For every node and pod, \<open>GetNodePodFrag\<close> returns exactly one of the seven
  categories (the seven names are pairwise different strings), and it is the one the
  decision tree chooses: with \<open>pod.MilliGpu = 0\<close>, \<open>XLSatisfied\<close> if the CPU fits and
  \<open>XRLackCPU\<close> otherwise; else \<open>NoAccess\<close> if the node is not accessible to the pod;
  else \<open>Q3Satisfied\<close> or \<open>Q4LackCpu\<close> if the GPUs can host the pod, by whether the CPU
  fits, and \<open>Q2LackGpu\<close> or \<open>Q1LackBoth\<close> if they cannot. This holds whatever
  \<open>IsNodeAccessibleToPod\<close> computes.
\<close>

theorem GetNodePodFrag_decision_tree:
  fixes nodeRes :: "'a NodeResource_scheme" and podRes :: "'b PodResource_scheme"
  shows
   "GetNodePodFrag acc nodeRes podRes \<in>
      {Q1LackBoth, Q2LackGpu, Q3Satisfied, Q4LackCpu, XLSatisfied, XRLackCPU, NoAccess}
    \<and> distinct [Q1LackBoth, Q2LackGpu, Q3Satisfied, Q4LackCpu, XLSatisfied, XRLackCPU, NoAccess]
    \<and> (GetNodePodFrag acc nodeRes podRes = XLSatisfied \<longleftrightarrow>
          MilliGpu podRes = 0 \<and> MilliCpu podRes \<le> MilliCpuLeft nodeRes)
    \<and> (GetNodePodFrag acc nodeRes podRes = XRLackCPU \<longleftrightarrow>
          MilliGpu podRes = 0 \<and> \<not> MilliCpu podRes \<le> MilliCpuLeft nodeRes)
    \<and> (GetNodePodFrag acc nodeRes podRes = NoAccess \<longleftrightarrow>
          MilliGpu podRes \<noteq> 0 \<and> \<not> acc nodeRes podRes)
    \<and> (GetNodePodFrag acc nodeRes podRes = Q3Satisfied \<longleftrightarrow>
          MilliGpu podRes \<noteq> 0 \<and> acc nodeRes podRes
          \<and> CanNodeHostPodOnGpuMemory nodeRes podRes
          \<and> MilliCpu podRes \<le> MilliCpuLeft nodeRes)
    \<and> (GetNodePodFrag acc nodeRes podRes = Q4LackCpu \<longleftrightarrow>
          MilliGpu podRes \<noteq> 0 \<and> acc nodeRes podRes
          \<and> CanNodeHostPodOnGpuMemory nodeRes podRes
          \<and> \<not> MilliCpu podRes \<le> MilliCpuLeft nodeRes)
    \<and> (GetNodePodFrag acc nodeRes podRes = Q2LackGpu \<longleftrightarrow>
          MilliGpu podRes \<noteq> 0 \<and> acc nodeRes podRes
          \<and> \<not> CanNodeHostPodOnGpuMemory nodeRes podRes
          \<and> MilliCpu podRes \<le> MilliCpuLeft nodeRes)
    \<and> (GetNodePodFrag acc nodeRes podRes = Q1LackBoth \<longleftrightarrow>
          MilliGpu podRes \<noteq> 0 \<and> acc nodeRes podRes
          \<and> \<not> CanNodeHostPodOnGpuMemory nodeRes podRes
          \<and> \<not> MilliCpu podRes \<le> MilliCpuLeft nodeRes)"
  unfolding GetNodePodFrag_def by (simp add: frag_names)

theorem GetNodePodFrag_decision_tree_witness:
  "GetNodePodFrag (\<lambda>n p. True)
      \<lparr>NodeName = ''node-a'', MilliCpuLeft = 4000, MilliGpuLeftList = [1000, 600]\<rparr>
      \<lparr>MilliCpu = 1000, MilliGpu = 700, GpuNumber = 1\<rparr> = Q3Satisfied
   \<and> GetNodePodFrag (\<lambda>n p. True)
      \<lparr>NodeName = ''node-a'', MilliCpuLeft = 4000, MilliGpuLeftList = [300, 600]\<rparr>
      \<lparr>MilliCpu = 8000, MilliGpu = 700, GpuNumber = 1\<rparr> = Q1LackBoth"
  using
    GetNodePodFrag_decision_tree [of "\<lambda>n p. True"
      "\<lparr>NodeName = ''node-a'', MilliCpuLeft = 4000, MilliGpuLeftList = [1000, 600]\<rparr>"
      "\<lparr>MilliCpu = 1000, MilliGpu = 700, GpuNumber = 1\<rparr>"]
    GetNodePodFrag_decision_tree [of "\<lambda>n p. True"
      "\<lparr>NodeName = ''node-a'', MilliCpuLeft = 4000, MilliGpuLeftList = [300, 600]\<rparr>"
      "\<lparr>MilliCpu = 8000, MilliGpu = 700, GpuNumber = 1\<rparr>"]
  by (simp add: CanNodeHostPodOnGpuMemory_def wrap64_def)

text \<open>
  C5 (as the code has it). \<open>CanNodeHostPodOnGpuMemory\<close> tests the counter only after a
  GPU was found that covers \<open>pod.MilliGpu\<close>, so it answers true iff at least
  \<open>max 1 pod.GpuNumber\<close> entries of \<open>MilliGpuLeftList\<close> are \<open>\<ge> pod.MilliGpu\<close>: for
  \<open>pod.GpuNumber \<ge> 1\<close> this is the stated condition, for \<open>pod.GpuNumber \<le> 0\<close> one
  fitting GPU is still required. (\<open>GpuNumber\<close> is any Go \<open>int\<close> but the least one,
  whose decrement wraps around.)
\<close>

theorem CanNodeHostPodOnGpuMemory_iff:
  fixes nodeRes :: "'a NodeResource_scheme" and podRes :: "'b PodResource_scheme"
  assumes "- (2 ^ 63) < GpuNumber podRes" and "GpuNumber podRes < 2 ^ 63"
  shows "CanNodeHostPodOnGpuMemory nodeRes podRes \<longleftrightarrow>
           max 1 (GpuNumber podRes) \<le> int (fittingGpus nodeRes podRes)"
proof (cases "0 < GpuNumber podRes")
  case True
  with assms canHostLoop_pos [of "GpuNumber podRes" "MilliGpu podRes" "MilliGpuLeftList nodeRes"]
  show ?thesis by (simp add: CanNodeHostPodOnGpuMemory_def fittingGpus_def max_def)
next
  case False
  with assms canHostLoop_nonpos [of "GpuNumber podRes" "MilliGpu podRes" "MilliGpuLeftList nodeRes"]
  show ?thesis by (simp add: CanNodeHostPodOnGpuMemory_def fittingGpus_def max_def)
qed

theorem CanNodeHostPodOnGpuMemory_iff_witness:
  "CanNodeHostPodOnGpuMemory
     \<lparr>NodeName = ''node-a'', MilliCpuLeft = 4000, MilliGpuLeftList = [1000, 200, 1000]\<rparr>
     \<lparr>MilliCpu = 1000, MilliGpu = 1000, GpuNumber = 2\<rparr>
   \<and> \<not> CanNodeHostPodOnGpuMemory
     \<lparr>NodeName = ''node-a'', MilliCpuLeft = 4000, MilliGpuLeftList = [1000, 200, 1000]\<rparr>
     \<lparr>MilliCpu = 1000, MilliGpu = 1000, GpuNumber = 3\<rparr>"
  using
    CanNodeHostPodOnGpuMemory_iff [of "\<lparr>MilliCpu = 1000, MilliGpu = 1000, GpuNumber = 2\<rparr>"
      "\<lparr>NodeName = ''node-a'', MilliCpuLeft = 4000, MilliGpuLeftList = [1000, 200, 1000]\<rparr>"]
    CanNodeHostPodOnGpuMemory_iff [of "\<lparr>MilliCpu = 1000, MilliGpu = 1000, GpuNumber = 3\<rparr>"
      "\<lparr>NodeName = ''node-a'', MilliCpuLeft = 4000, MilliGpuLeftList = [1000, 200, 1000]\<rparr>"]
  by (simp add: fittingGpus_def)

text \<open>
  C5 as stated fails: a CPU-only pod (\<open>GpuNumber = 0\<close>, \<open>MilliGpu = 0\<close>) on a node
  without GPUs. At least zero entries cover the request, yet the code answers false.
\<close>

theorem CanNodeHostPodOnGpuMemory_zero_counterexample:
  "\<not> (CanNodeHostPodOnGpuMemory
         \<lparr>NodeName = ''cpu-node'', MilliCpuLeft = 4000, MilliGpuLeftList = []\<rparr>
         \<lparr>MilliCpu = 1000, MilliGpu = 0, GpuNumber = 0\<rparr>
       \<longleftrightarrow>
       GpuNumber \<lparr>MilliCpu = 1000, MilliGpu = 0, GpuNumber = 0\<rparr>
         \<le> int (fittingGpus
             \<lparr>NodeName = ''cpu-node'', MilliCpuLeft = 4000, MilliGpuLeftList = []\<rparr>
             \<lparr>MilliCpu = 1000, MilliGpu = 0, GpuNumber = 0\<rparr>))"
  by (simp add: CanNodeHostPodOnGpuMemory_def fittingGpus_def)

subsection \<open>Skyline\<close>

lemma insertBy_skylineLess:
  "insertBy skylineLess x ys = insort_key (\<lambda>p. (MilliCpu p, MilliGpu p)) x ys"
  by (induction ys) (auto simp: skylineLess_def)

lemma SliceStable_skylineLess:
  "SliceStable skylineLess xs = sort_key (\<lambda>p. (MilliCpu p, MilliGpu p)) xs"
  by (induction xs) (simp_all add: SliceStable_def sort_key_def insertBy_skylineLess)

lemma skylineSweep_step:
  "skylineSweep acc (p # rest) =
     skylineSweep
       (if acc = [] \<or> (MilliCpu (last acc) < MilliCpu p \<and> MilliGpu p < MilliGpu (last acc))
        then acc @ [p] else acc) rest"
  by (cases "acc = []") (simp_all add: Let_def last_conv_nth)

lemma skylineSweep_chain:
  "sorted_wrt (\<lambda>a b. dominates b a) acc \<Longrightarrow>
   sorted_wrt (\<lambda>a b. dominates b a) (skylineSweep acc rest)"
proof (induction rest arbitrary: acc)
  case Nil
  then show ?case by simp
next
  case (Cons p rest)
  show ?case
  proof (cases "acc = [] \<or> (MilliCpu (last acc) < MilliCpu p \<and> MilliGpu p < MilliGpu (last acc))")
    case False
    with Cons show ?thesis by (simp only: skylineSweep_step if_False)
  next
    case True
    have "sorted_wrt (\<lambda>a b. dominates b a) (acc @ [p])"
    proof (cases "acc = []")
      case True
      then show ?thesis by simp
    next
      case False
      with True have l: "dominates p (last acc)" by (simp add: dominates_def)
      have "dominates p x" if "x \<in> set acc" for x
      proof (cases "x = last acc")
        case True
        with l show ?thesis by simp
      next
        case False
        from \<open>acc \<noteq> []\<close> have "acc = butlast acc @ [last acc]" by simp
        with that False have "x \<in> set (butlast acc)"
          by (metis Un_iff empty_iff insert_iff list.simps(15) set_append empty_set)
        with Cons.prems \<open>acc = butlast acc @ [last acc]\<close> have "dominates (last acc) x"
          by (metis sorted_wrt_append list.set_intros(1))
        with l show ?thesis by (auto simp: dominates_def)
      qed
      with Cons.prems show ?thesis by (simp add: sorted_wrt_append)
    qed
    from Cons.IH [OF this] True show ?thesis by (simp only: skylineSweep_step if_True)
  qed
qed

lemma skylineSweep_subset: "set (skylineSweep acc rest) \<subseteq> set acc \<union> set rest"
proof (induction rest arbitrary: acc)
  case Nil
  then show ?case by simp
next
  case (Cons p rest)
  have "set (skylineSweep acc (p # rest))
          \<subseteq> set (if acc = [] \<or> (MilliCpu (last acc) < MilliCpu p \<and> MilliGpu p < MilliGpu (last acc))
                 then acc @ [p] else acc) \<union> set rest"
    unfolding skylineSweep_step by (rule Cons.IH)
  then show ?case by (auto split: if_splits)
qed

text \<open>
  C6 (as the code has it). \<open>GetSkylinePods\<close> sorts the requests stably by
  \<open>(MilliCpu, MilliGpu)\<close> ascending (the sorted list is a permutation of the requests)
  and sweeps, appending a pod iff the skyline is still empty or the pod's \<open>MilliCpu\<close> is
  strictly greater and its \<open>MilliGpu\<close> strictly less than the last accepted pod's.
  Consequently the skyline is a chain: every later pod has strictly more CPU and
  strictly less GPU than every earlier one, that is, it dominates the earlier one in
  the order \<open>(cpu\<up>, gpu\<down>)\<close>. What holds of two pods at different positions is
  that neither asks for at most as much CPU and at most as much GPU as the other.
\<close>

theorem GetSkylinePods_chain:
  fixes getPodResource :: "'pod \<Rightarrow> 'b PodResource_scheme"
  shows
   "sorted (map (\<lambda>p. (MilliCpu p, MilliGpu p))
        (SliceStable skylineLess (map getPodResource allPods)))
    \<and> mset (SliceStable skylineLess (map getPodResource allPods))
        = mset (map getPodResource allPods)
    \<and> GetSkylinePods getPodResource allPods
        = skylineSweep [] (SliceStable skylineLess (map getPodResource allPods))
    \<and> (\<forall>acc p rest. skylineSweep acc (p # rest) =
          skylineSweep
            (if acc = [] \<or> (MilliCpu (last acc) < MilliCpu p \<and> MilliGpu p < MilliGpu (last acc))
             then acc @ [p] else acc) rest)
    \<and> set (GetSkylinePods getPodResource allPods) \<subseteq> getPodResource ` set allPods
    \<and> (\<forall>i j. i < j \<and> j < length (GetSkylinePods getPodResource allPods) \<longrightarrow>
          dominates (GetSkylinePods getPodResource allPods ! j)
                    (GetSkylinePods getPodResource allPods ! i))
    \<and> (\<forall>i j. i < length (GetSkylinePods getPodResource allPods)
              \<and> j < length (GetSkylinePods getPodResource allPods) \<and> i \<noteq> j \<longrightarrow>
          \<not> (MilliCpu (GetSkylinePods getPodResource allPods ! i)
                \<le> MilliCpu (GetSkylinePods getPodResource allPods ! j)
             \<and> MilliGpu (GetSkylinePods getPodResource allPods ! i)
                \<le> MilliGpu (GetSkylinePods getPodResource allPods ! j)))"
proof -
  let ?reqs = "map getPodResource allPods"
  let ?sky = "GetSkylinePods getPodResource allPods"
  have srt: "sorted (map (\<lambda>p. (MilliCpu p, MilliGpu p)) (SliceStable skylineLess ?reqs))"
    by (simp add: SliceStable_skylineLess)
  have perm: "mset (SliceStable skylineLess ?reqs) = mset ?reqs"
    by (simp add: SliceStable_skylineLess)
  have sub: "set ?sky \<subseteq> getPodResource ` set allPods"
  proof -
    have "set ?sky \<subseteq> set (SliceStable skylineLess ?reqs)"
      using skylineSweep_subset [of "[]" "SliceStable skylineLess ?reqs"]
      by (simp add: GetSkylinePods_def)
    also have "\<dots> = set ?reqs"
      using perm by (metis set_mset_mset)
    finally show ?thesis by simp
  qed
  have "sorted_wrt (\<lambda>a b. dominates b a) ?sky"
    unfolding GetSkylinePods_def by (rule skylineSweep_chain) simp
  then have chain: "i < j \<Longrightarrow> j < length ?sky \<Longrightarrow> dominates (?sky ! j) (?sky ! i)" for i j
    by (simp add: sorted_wrt_iff_nth_less)
  have anti: "\<not> (MilliCpu (?sky ! i) \<le> MilliCpu (?sky ! j) \<and> MilliGpu (?sky ! i) \<le> MilliGpu (?sky ! j))"
    if "i < length ?sky" "j < length ?sky" "i \<noteq> j" for i j
  proof (cases "i < j")
    case True
    with chain [of i j] that show ?thesis by (auto simp: dominates_def)
  next
    case False
    with that have "j < i" by simp
    with chain [of j i] that show ?thesis by (auto simp: dominates_def)
  qed
  have d: "?sky = skylineSweep [] (SliceStable skylineLess ?reqs)"
    by (simp add: GetSkylinePods_def)
  have step: "\<forall>acc p rest. skylineSweep acc (p # rest) =
          skylineSweep
            (if acc = [] \<or> (MilliCpu (last acc) < MilliCpu p \<and> MilliGpu p < MilliGpu (last acc))
             then acc @ [p] else acc) rest"
    using skylineSweep_step by blast
  have c: "\<forall>i j. i < j \<and> j < length ?sky \<longrightarrow> dominates (?sky ! j) (?sky ! i)"
    using chain by blast
  have a: "\<forall>i j. i < length ?sky \<and> j < length ?sky \<and> i \<noteq> j \<longrightarrow>
      \<not> (MilliCpu (?sky ! i) \<le> MilliCpu (?sky ! j) \<and> MilliGpu (?sky ! i) \<le> MilliGpu (?sky ! j))"
    using anti by blast
  show ?thesis
    by (intro conjI srt perm d step sub c a)
qed

text \<open>
  The theorem on four requests: the pod \<open>(2000, 500)\<close> is dropped (no less GPU than
  \<open>(1000, 500)\<close>), and the skyline has CPU going up and GPU going down.
\<close>

theorem GetSkylinePods_chain_witness:
  "GetSkylinePods (\<lambda>p. p)
     [\<lparr>MilliCpu = 4000, MilliGpu = 0, GpuNumber = 0\<rparr>,
      \<lparr>MilliCpu = 2000, MilliGpu = 500, GpuNumber = 1\<rparr>,
      \<lparr>MilliCpu = 1000, MilliGpu = 500, GpuNumber = 1\<rparr>,
      \<lparr>MilliCpu = 3000, MilliGpu = 200, GpuNumber = 1\<rparr>]
   = [\<lparr>MilliCpu = 1000, MilliGpu = 500, GpuNumber = 1\<rparr>,
      \<lparr>MilliCpu = 3000, MilliGpu = 200, GpuNumber = 1\<rparr>,
      \<lparr>MilliCpu = 4000, MilliGpu = 0, GpuNumber = 0\<rparr>]
   \<and> dominates
       (GetSkylinePods (\<lambda>p. p)
         [\<lparr>MilliCpu = 4000, MilliGpu = 0, GpuNumber = 0\<rparr>,
          \<lparr>MilliCpu = 2000, MilliGpu = 500, GpuNumber = 1\<rparr>,
          \<lparr>MilliCpu = 1000, MilliGpu = 500, GpuNumber = 1\<rparr>,
          \<lparr>MilliCpu = 3000, MilliGpu = 200, GpuNumber = 1\<rparr>] ! 2)
       (GetSkylinePods (\<lambda>p. p)
         [\<lparr>MilliCpu = 4000, MilliGpu = 0, GpuNumber = 0\<rparr>,
          \<lparr>MilliCpu = 2000, MilliGpu = 500, GpuNumber = 1\<rparr>,
          \<lparr>MilliCpu = 1000, MilliGpu = 500, GpuNumber = 1\<rparr>,
          \<lparr>MilliCpu = 3000, MilliGpu = 200, GpuNumber = 1\<rparr>] ! 0)"
proof -
  let ?pods = "[\<lparr>MilliCpu = 4000, MilliGpu = 0, GpuNumber = 0\<rparr>,
      \<lparr>MilliCpu = 2000, MilliGpu = 500, GpuNumber = 1\<rparr>,
      \<lparr>MilliCpu = 1000, MilliGpu = 500, GpuNumber = 1\<rparr>,
      \<lparr>MilliCpu = 3000, MilliGpu = 200, GpuNumber = 1\<rparr>]"
  have val: "GetSkylinePods (\<lambda>p. p) ?pods
     = [\<lparr>MilliCpu = 1000, MilliGpu = 500, GpuNumber = 1\<rparr>,
        \<lparr>MilliCpu = 3000, MilliGpu = 200, GpuNumber = 1\<rparr>,
        \<lparr>MilliCpu = 4000, MilliGpu = 0, GpuNumber = 0\<rparr>]"
    by (simp add: GetSkylinePods_def SliceStable_def skylineLess_def)
  have len: "(0::nat) < 2 \<and> 2 < length (GetSkylinePods (\<lambda>p. p) ?pods)"
    by (simp add: val)
  from GetSkylinePods_chain [of "\<lambda>p. p" ?pods] len
  have "dominates (GetSkylinePods (\<lambda>p. p) ?pods ! 2) (GetSkylinePods (\<lambda>p. p) ?pods ! 0)"
    by blast
  with val show ?thesis by simp
qed

text \<open>
  C6 as stated fails: with two requests \<open>(1000, 500)\<close> and \<open>(2000, 100)\<close> both are in
  the skyline, and the second dominates the first (strictly more CPU, strictly less
  GPU).
\<close>

theorem GetSkylinePods_dominance_counterexample:
  "\<lparr>MilliCpu = 1000, MilliGpu = 500, GpuNumber = 1\<rparr>
     \<in> set (GetSkylinePods (\<lambda>p. p)
         [\<lparr>MilliCpu = 1000, MilliGpu = 500, GpuNumber = 1\<rparr>,
          \<lparr>MilliCpu = 2000, MilliGpu = 100, GpuNumber = 1\<rparr>])
   \<and> \<lparr>MilliCpu = 2000, MilliGpu = 100, GpuNumber = 1\<rparr>
     \<in> set (GetSkylinePods (\<lambda>p. p)
         [\<lparr>MilliCpu = 1000, MilliGpu = 500, GpuNumber = 1\<rparr>,
          \<lparr>MilliCpu = 2000, MilliGpu = 100, GpuNumber = 1\<rparr>])
   \<and> dominates \<lparr>MilliCpu = 2000, MilliGpu = 100, GpuNumber = 1\<rparr>
               \<lparr>MilliCpu = 1000, MilliGpu = 500, GpuNumber = 1\<rparr>"
  by (simp add: GetSkylinePods_def SliceStable_def skylineLess_def dominates_def)

subsection \<open>Greed queue\<close>

lemma foldl_running_max:
  fixes f :: "'a \<Rightarrow> real"
  shows "foldl (\<lambda>res x. let v = f x in if v > res then v else res) r xs
           = Max (insert r (f ` set xs))"
proof (induction xs arbitrary: r)
  case Nil
  then show ?case by simp
next
  case (Cons x xs)
  have "Max (insert (if r < f x then f x else r) (f ` set xs))
          = Max (insert r (insert (f x) (f ` set xs)))"
  proof (cases "r < f x")
    case True
    have "Max (insert r (insert (f x) (f ` set xs))) = max r (Max (insert (f x) (f ` set xs)))"
      by (rule Max_insert) simp_all
    also have "\<dots> = Max (insert (f x) (f ` set xs))"
      using True by (simp add: max_def) (meson List.finite_set Max_ge finite_imageI
          finite_insert insertI1 less_le_trans not_less order.strict_implies_order)
    finally show ?thesis using True by simp
  next
    case False
    have "Max (insert r (insert (f x) (f ` set xs))) = Max (insert (f x) (insert r (f ` set xs)))"
      by (simp add: insert_commute)
    also have "\<dots> = max (f x) (Max (insert r (f ` set xs)))"
      by (rule Max_insert) simp_all
    also have "\<dots> = Max (insert r (f ` set xs))"
      using False by (simp add: max_def) (meson List.finite_set Max_ge finite_imageI
          finite_insert insertI1 order_trans not_less)
    finally show ?thesis using False by simp
  qed
  with Cons.IH [of "if r < f x then f x else r"] show ?case by (simp add: Let_def)
qed

lemma calculatePodShare_dominantShare:
  "set rangeOrder = dom (totalResource greed) \<Longrightarrow>
   calculatePodShare greed rangeOrder pod = dominantShare greed pod"
  unfolding calculatePodShare_def dominantShare_def
  using foldl_running_max [of "\<lambda>resourceName.
              Share (quantityAt (Requests pod) resourceName)
                    (quantityAt (totalResource greed) resourceName)" 0 rangeOrder]
  by simp

text \<open>
  C7 (as the code has it). For pods \<open>i\<close>, \<open>j\<close> of the queue, \<open>Less\<close> is true whenever pod
  \<open>i\<close> is bound (non-empty \<open>Spec.NodeName\<close>), also when \<open>j\<close> is bound or \<open>i = j\<close>; it is
  false when \<open>i\<close> is unbound and \<open>j\<close> is bound; and two unbound pods are compared by
  descending dominant share. The dominant share is the largest, over the resources of
  the cluster total, of request divided by capacity, where a resource of capacity 0
  counts 1 if it is requested and 0 if not, and the share of a pod without requests
  is 0. The value of \<open>Less\<close> does not depend on the order in which \<open>range\<close> visits the
  map of totals.
\<close>

theorem GreedQueue_Less_bound_first:
  assumes "set rangeOrder = dom (totalResource greed)"
      and "set rangeOrder' = dom (totalResource greed)"
      and "i < length (pods greed)" and "j < length (pods greed)"
  shows
   "calculatePodShare greed rangeOrder (pods greed ! i) = dominantShare greed (pods greed ! i)
    \<and> (SpecNodeName (pods greed ! i) \<noteq> [] \<longrightarrow> Less greed rangeOrder i j = Some True)
    \<and> (SpecNodeName (pods greed ! i) = [] \<and> SpecNodeName (pods greed ! j) \<noteq> [] \<longrightarrow>
          Less greed rangeOrder i j = Some False)
    \<and> (SpecNodeName (pods greed ! i) = [] \<and> SpecNodeName (pods greed ! j) = [] \<longrightarrow>
          Less greed rangeOrder i j
            = Some (dominantShare greed (pods greed ! i) > dominantShare greed (pods greed ! j)))
    \<and> Less greed rangeOrder' i j = Less greed rangeOrder i j"
  using assms
  by (simp add: Less_def calculatePodShare_dominantShare)

theorem GreedQueue_Less_bound_first_witness:
  "Less \<lparr>pods = [\<lparr>SpecNodeName = [], Requests = [''cpu'' \<mapsto> 2, ''memory'' \<mapsto> 2]\<rparr>,
                 \<lparr>SpecNodeName = [], Requests = [''cpu'' \<mapsto> 1, ''memory'' \<mapsto> 8]\<rparr>],
         totalResource = [''cpu'' \<mapsto> 8, ''memory'' \<mapsto> 16]\<rparr>
        [''memory'', ''cpu''] 1 0 = Some True
   \<and> dominantShare
        \<lparr>pods = [\<lparr>SpecNodeName = [], Requests = [''cpu'' \<mapsto> 2, ''memory'' \<mapsto> 2]\<rparr>,
                 \<lparr>SpecNodeName = [], Requests = [''cpu'' \<mapsto> 1, ''memory'' \<mapsto> 8]\<rparr>],
         totalResource = [''cpu'' \<mapsto> 8, ''memory'' \<mapsto> 16]\<rparr>
        \<lparr>SpecNodeName = [], Requests = [''cpu'' \<mapsto> 1, ''memory'' \<mapsto> 8]\<rparr> = 1 / 2"
proof -
  let ?a = "\<lparr>SpecNodeName = [], Requests = [''cpu'' \<mapsto> 2 :: real, ''memory'' \<mapsto> 2]\<rparr>"
  let ?b = "\<lparr>SpecNodeName = [], Requests = [''cpu'' \<mapsto> 1 :: real, ''memory'' \<mapsto> 8]\<rparr>"
  let ?q = "\<lparr>pods = [?a, ?b], totalResource = [''cpu'' \<mapsto> 8 :: real, ''memory'' \<mapsto> 16]\<rparr>"
  have o: "set [''memory'', ''cpu''] = dom (totalResource ?q)" by auto
  have i: "1 < length (pods ?q)" and j: "0 < length (pods ?q)" by simp_all
  have da: "dominantShare ?q ?a = 1 / 4"
    by (simp add: dominantShare_def Share_def quantityAt_def)
  have db: "dominantShare ?q ?b = 1 / 2"
    by (simp add: dominantShare_def Share_def quantityAt_def)
  from GreedQueue_Less_bound_first [OF o o i j]
  have "Less ?q [''memory'', ''cpu''] 1 0 = Some (dominantShare ?q ?b > dominantShare ?q ?a)"
    by simp
  with da db show ?thesis by simp
qed

text \<open>
  C7 as stated fails: \<open>Less\<close> is not an order. Of two bound pods each is less than the
  other.
\<close>

theorem GreedQueue_Less_both_bound_counterexample:
  "Less \<lparr>pods = [\<lparr>SpecNodeName = ''node-a'', Requests = [''cpu'' \<mapsto> 2]\<rparr>,
                 \<lparr>SpecNodeName = ''node-b'', Requests = [''cpu'' \<mapsto> 1]\<rparr>],
         totalResource = [''cpu'' \<mapsto> 8, ''memory'' \<mapsto> 16]\<rparr>
        [''cpu'', ''memory''] 0 1 = Some True
   \<and> Less \<lparr>pods = [\<lparr>SpecNodeName = ''node-a'', Requests = [''cpu'' \<mapsto> 2]\<rparr>,
                 \<lparr>SpecNodeName = ''node-b'', Requests = [''cpu'' \<mapsto> 1]\<rparr>],
         totalResource = [''cpu'' \<mapsto> 8, ''memory'' \<mapsto> 16]\<rparr>
        [''cpu'', ''memory''] 1 0 = Some True"
  by (simp add: Less_def)


subsection \<open>Fragmentation amount\<close>

lemma foldl_wrap_sum:
  "0 \<le> a \<Longrightarrow> \<forall>g\<in>set xs. 0 \<le> g \<Longrightarrow> a + sum_list xs < 2 ^ 63 \<Longrightarrow>
   foldl (\<lambda>t g. wrap64 (t + g)) a xs = a + sum_list xs"
proof (induction xs arbitrary: a)
  case Nil
  then show ?case by simp
next
  case (Cons x xs)
  have nn: "0 \<le> sum_list xs" using Cons.prems(2) by (simp add: sum_list_nonneg)
  have "is_int64 (a + x)" using Cons.prems nn by (simp add: is_int64_def)
  then have w: "wrap64 (a + x) = a + x" by (rule wrap64_id)
  have "foldl (\<lambda>t g. wrap64 (t + g)) (a + x) xs = (a + x) + sum_list xs"
    using Cons.prems by (intro Cons.IH) simp_all
  with w show ?case by simp
qed

lemma sum_list_filter_le:
  fixes xs :: "int list"
  shows "\<forall>g\<in>set xs. 0 \<le> g \<Longrightarrow> sum_list (filter P xs) \<le> sum_list xs"
  by (induction xs) auto

lemma foldl_wrap_frag:
  "0 \<le> a \<Longrightarrow> \<forall>g\<in>set xs. 0 \<le> g \<Longrightarrow> a + sum_list xs < 2 ^ 63 \<Longrightarrow>
   foldl (\<lambda>t g. if g < m then wrap64 (t + g) else t) a xs
     = a + sum_list (filter (\<lambda>g. g < m) xs)"
proof (induction xs arbitrary: a)
  case Nil
  then show ?case by simp
next
  case (Cons x xs)
  have nn: "0 \<le> sum_list xs" using Cons.prems(2) by (simp add: sum_list_nonneg)
  have "is_int64 (a + x)" using Cons.prems nn by (simp add: is_int64_def)
  then have w: "wrap64 (a + x) = a + x" by (rule wrap64_id)
  show ?case
  proof (cases "x < m")
    case True
    have "foldl (\<lambda>t g. if g < m then wrap64 (t + g) else t) (a + x) xs
            = (a + x) + sum_list (filter (\<lambda>g. g < m) xs)"
      using Cons.prems by (intro Cons.IH) simp_all
    with w True show ?thesis by simp
  next
    case False
    have "foldl (\<lambda>t g. if g < m then wrap64 (t + g) else t) a xs
            = a + sum_list (filter (\<lambda>g. g < m) xs)"
      using Cons.prems by (intro Cons.IH) simp_all
    with False show ?thesis by simp
  qed
qed

lemma FragRatioDataMap_simps:
  "FragRatioDataMap Q1LackBoth = Some 0"
  "FragRatioDataMap Q2LackGpu = Some 1"
  "FragRatioDataMap Q3Satisfied = Some 2"
  "FragRatioDataMap Q4LackCpu = Some 3"
  "FragRatioDataMap XLSatisfied = Some 4"
  "FragRatioDataMap XRLackCPU = Some 5"
  "FragRatioDataMap NoAccess = Some 6"
  by (simp_all add: FragRatioDataMap_def FragRatioDataList_def frag_names)

lemma GetNodePodFrag_index:
  "\<exists>idx<7. FragRatioDataMap (GetNodePodFrag acc n p) = Some idx"
  by (simp add: GetNodePodFrag_def FragRatioDataMap_simps)

lemma GetGpuMilliLeftTotal_sum:
  "\<forall>g\<in>set (MilliGpuLeftList n). 0 \<le> g \<Longrightarrow> sum_list (MilliGpuLeftList n) < 2 ^ 63 \<Longrightarrow>
   GetGpuMilliLeftTotal n = sum_list (MilliGpuLeftList n)"
  unfolding GetGpuMilliLeftTotal_def
  using foldl_wrap_sum [of 0 "MilliGpuLeftList n"] by simp

lemma GetGpuFragMilli_sum:
  "\<forall>g\<in>set (MilliGpuLeftList n). 0 \<le> g \<Longrightarrow> sum_list (MilliGpuLeftList n) < 2 ^ 63 \<Longrightarrow>
   GetGpuFragMilliByNodeResAndPodRes n p
     = sum_list (filter (\<lambda>g. g < MilliGpu p) (MilliGpuLeftList n))"
  unfolding GetGpuFragMilliByNodeResAndPodRes_def
  using foldl_wrap_frag [of 0 "MilliGpuLeftList n" "MilliGpu p"] by simp

lemma AddByFragType_ok:
  "0 \<le> amount \<Longrightarrow> FragRatioDataMap fragType = Some idx \<Longrightarrow> idx < length (Data fa) \<Longrightarrow>
   AddByFragType fa fragType amount
     = Some (fa\<lparr>Data := (Data fa)[idx := Data fa ! idx + amount]\<rparr>, None)"
  by (simp add: AddByFragType_def)

lemma shareFragBody_adds:
  assumes len: "length (Data fa) = 7"
    and f: "0 \<le> Percentage tp" "Percentage tp \<le> 1"
    and nn: "\<forall>g\<in>set (MilliGpuLeftList n). 0 \<le> g"
    and fit: "sum_list (MilliGpuLeftList n) < 2 ^ 63"
  shows "\<exists>fa'. shareFragBody acc n fa tp = Some fa'
           \<and> FaNodeName fa' = FaNodeName fa \<and> length (Data fa') = 7
           \<and> (\<forall>c<7. Data fa' ! c = Data fa ! c + fragContribution acc n tp c)"
proof -
  let ?p = "TargetPodResource tp"
  let ?tot = "sum_list (MilliGpuLeftList n)"
  let ?frag = "sum_list (filter (\<lambda>g. g < MilliGpu ?p) (MilliGpuLeftList n))"
  have tot: "GetGpuMilliLeftTotal n = ?tot"
    using nn fit by (rule GetGpuMilliLeftTotal_sum)
  have frag: "GetGpuFragMilliByNodeResAndPodRes n ?p = ?frag"
    using nn fit by (rule GetGpuFragMilli_sum)
  have frag0: "0 \<le> ?frag" using nn by (intro sum_list_nonneg) simp
  have tot0: "0 \<le> ?tot" using nn by (simp add: sum_list_nonneg)
  have le: "?frag \<le> ?tot" using nn by (rule sum_list_filter_le)
  have "is_int64 (?tot - ?frag)" using le frag0 fit by (simp add: is_int64_def)
  then have w: "wrap64 (?tot - ?frag) = ?tot - ?frag" by (rule wrap64_id)
  have nf: "\<not> (Percentage tp < 0 \<or> Percentage tp > 1)" using f by simp
  show ?thesis
  proof (cases "GetNodePodFrag acc n ?p = Q3Satisfied")
    case True
    have a1: "0 \<le> Percentage tp * real_of_int ?frag" using f frag0 by simp
    have a2: "0 \<le> Percentage tp * real_of_int (?tot - ?frag)" using f le by simp
    let ?fa1 = "fa\<lparr>Data := (Data fa)[1 := Data fa ! 1 + Percentage tp * real_of_int ?frag]\<rparr>"
    have s1: "AddByFragType fa Q2LackGpu (Percentage tp * real_of_int ?frag) = Some (?fa1, None)"
      using AddByFragType_ok [OF a1 FragRatioDataMap_simps(2), of fa] len by simp
    let ?fa2 = "?fa1\<lparr>Data := (Data ?fa1)[2 := Data ?fa1 ! 2 + Percentage tp * real_of_int (?tot - ?frag)]\<rparr>"
    have s2: "AddByFragType ?fa1 Q3Satisfied (Percentage tp * real_of_int (?tot - ?frag))
                = Some (?fa2, None)"
      using AddByFragType_ok [OF a2 FragRatioDataMap_simps(3), of ?fa1] len by simp
    have body: "shareFragBody acc n fa tp = Some ?fa2"
      unfolding shareFragBody_def Let_def using nf True tot frag w s1 s2 by simp
    have "\<forall>c<7. Data ?fa2 ! c = Data fa ! c + fragContribution acc n tp c"
      using True len
      by (auto simp: fragContribution_def Let_def FragRatioDataMap_simps nth_list_update)
    with body len show ?thesis by simp
  next
    case False
    obtain idx where idx: "idx < 7" "FragRatioDataMap (GetNodePodFrag acc n ?p) = Some idx"
      using GetNodePodFrag_index by blast
    have a: "0 \<le> Percentage tp * real_of_int ?tot" using f tot0 by simp
    let ?fa1 = "fa\<lparr>Data := (Data fa)[idx := Data fa ! idx + Percentage tp * real_of_int ?tot]\<rparr>"
    have s1: "AddByFragType fa (GetNodePodFrag acc n ?p) (Percentage tp * real_of_int ?tot)
                = Some (?fa1, None)"
      using AddByFragType_ok [OF a idx(2), of fa] len idx(1) by simp
    have body: "shareFragBody acc n fa tp = Some ?fa1"
      unfolding shareFragBody_def Let_def using nf False tot s1 by simp
    have "\<forall>c<7. Data ?fa1 ! c = Data fa ! c + fragContribution acc n tp c"
      using False len idx
      by (auto simp: fragContribution_def Let_def nth_list_update)
    with body len show ?thesis by simp
  qed
qed

lemma shareFragLoop_adds:
  assumes nn: "\<forall>g\<in>set (MilliGpuLeftList n). 0 \<le> g"
    and fit: "sum_list (MilliGpuLeftList n) < 2 ^ 63"
  shows "length (Data fa) = 7 \<Longrightarrow>
         \<forall>tp\<in>set tps. 0 \<le> Percentage tp \<and> Percentage tp \<le> 1 \<Longrightarrow>
         \<exists>fa'. shareFragLoop acc n fa tps = Some fa'
           \<and> FaNodeName fa' = FaNodeName fa \<and> length (Data fa') = 7
           \<and> (\<forall>c<7. Data fa' ! c = Data fa ! c + (\<Sum>tp\<leftarrow>tps. fragContribution acc n tp c))"
proof (induction tps arbitrary: fa)
  case Nil
  then show ?case by simp
next
  case (Cons tp tps)
  from Cons.prems have f: "0 \<le> Percentage tp" "Percentage tp \<le> 1" by simp_all
  from shareFragBody_adds [OF Cons.prems(1) f nn fit, of acc]
  obtain fa1 where fa1: "shareFragBody acc n fa tp = Some fa1"
      "FaNodeName fa1 = FaNodeName fa" "length (Data fa1) = 7"
      "\<forall>c<7. Data fa1 ! c = Data fa ! c + fragContribution acc n tp c"
    by blast
  from Cons.IH [OF fa1(3)] Cons.prems(2)
  obtain fa2 where fa2: "shareFragLoop acc n fa1 tps = Some fa2"
      "FaNodeName fa2 = FaNodeName fa1" "length (Data fa2) = 7"
      "\<forall>c<7. Data fa2 ! c = Data fa1 ! c + (\<Sum>tp\<leftarrow>tps. fragContribution acc n tp c)"
    by auto
  from fa1 fa2 show ?case by (simp add: add.assoc)
qed

text \<open>
  C2. For a node whose per-GPU remaining millis are non-negative with a total that fits
  \<open>int64\<close> (the data model of a node's resources), and typical pods whose percentage
  \<open>f\<close> lies in \<open>[0, 1]\<close>: the loop body of \<open>NodeGpuShareFragAmount\<close> returns (no panic)
  and adds to every entry exactly the pod's contribution: with category \<open>Q3Satisfied\<close>,
  \<open>f\<close> times the sum of the per-GPU millis strictly below \<open>pod.MilliGpu\<close> to
  \<open>Q2LackGpu\<close> and \<open>f\<close> times the rest of the remaining millis to \<open>Q3Satisfied\<close>; with
  any other category, \<open>f\<close> times the total remaining millis to that category; nothing
  to any other entry. The function's result is, entry by entry, the sum of the
  contributions of the typical pods, on the node's name.
\<close>

theorem NodeGpuShareFragAmount_accumulates:
  fixes nodeRes :: "'a NodeResource_scheme" and typicalPods :: "'b TargetPod list"
  assumes "\<forall>pod\<in>set typicalPods. 0 \<le> Percentage pod \<and> Percentage pod \<le> 1"
      and "\<forall>g\<in>set (MilliGpuLeftList nodeRes). 0 \<le> g"
      and "sum_list (MilliGpuLeftList nodeRes) < 2 ^ 63"
  shows
   "(\<forall>fa pod. length (Data fa) = 7 \<and> 0 \<le> Percentage pod \<and> Percentage pod \<le> 1 \<longrightarrow>
       (\<exists>fa'. shareFragBody acc nodeRes fa pod = Some fa'
          \<and> FaNodeName fa' = FaNodeName fa \<and> length (Data fa') = 7
          \<and> (\<forall>c<7. Data fa' ! c = Data fa ! c + fragContribution acc nodeRes pod c)))
    \<and> (\<exists>r. NodeGpuShareFragAmount acc nodeRes typicalPods = Some r
          \<and> FaNodeName r = NodeName nodeRes \<and> length (Data r) = 7
          \<and> (\<forall>c<7. Data r ! c = (\<Sum>pod\<leftarrow>typicalPods. fragContribution acc nodeRes pod c)))"
proof (intro conjI allI impI)
  fix fa :: "real list FragAmount" and pod :: "'b TargetPod"
  assume "length (Data fa) = 7 \<and> 0 \<le> Percentage pod \<and> Percentage pod \<le> 1"
  then show "\<exists>fa'. shareFragBody acc nodeRes fa pod = Some fa'
          \<and> FaNodeName fa' = FaNodeName fa \<and> length (Data fa') = 7
          \<and> (\<forall>c<7. Data fa' ! c = Data fa ! c + fragContribution acc nodeRes pod c)"
    using shareFragBody_adds [of fa pod nodeRes acc] assms(2,3) by blast
next
  let ?fa0 = "NewFragAmount (NodeName nodeRes) (replicate (length FragRatioDataList) 0)"
  have len: "length (Data ?fa0) = 7"
    by (simp add: NewFragAmount_def FragRatioDataList_def)
  from shareFragLoop_adds [OF assms(2,3) len assms(1), of acc]
  obtain r where r: "shareFragLoop acc nodeRes ?fa0 typicalPods = Some r"
      "FaNodeName r = FaNodeName ?fa0" "length (Data r) = 7"
      "\<forall>c<7. Data r ! c = Data ?fa0 ! c + (\<Sum>pod\<leftarrow>typicalPods. fragContribution acc nodeRes pod c)"
    by blast
  have "length FragRatioDataList = 7" by (simp add: FragRatioDataList_def)
  then have "Data ?fa0 ! c = 0" if "c < 7" for c
    using that by (simp add: NewFragAmount_def)
  with r show "\<exists>r. NodeGpuShareFragAmount acc nodeRes typicalPods = Some r
          \<and> FaNodeName r = NodeName nodeRes \<and> length (Data r) = 7
          \<and> (\<forall>c<7. Data r ! c = (\<Sum>pod\<leftarrow>typicalPods. fragContribution acc nodeRes pod c))"
    by (simp add: NodeGpuShareFragAmount_def Let_def NewFragAmount_def)
qed

theorem NodeGpuShareFragAmount_accumulates_witness:
  "NodeGpuShareFragAmount (\<lambda>n p. True)
     \<lparr>NodeName = ''node-a'', MilliCpuLeft = 4000, MilliGpuLeftList = [1000, 300]\<rparr>
     [\<lparr>TargetPodResource = \<lparr>MilliCpu = 1000, MilliGpu = 500, GpuNumber = 1\<rparr>, Percentage = 1 / 2\<rparr>,
      \<lparr>TargetPodResource = \<lparr>MilliCpu = 8000, MilliGpu = 0, GpuNumber = 0\<rparr>, Percentage = 1 / 2\<rparr>]
   = Some \<lparr>FaNodeName = ''node-a'', Data = [0, 150, 500, 0, 0, 650, 0]\<rparr>
   \<and> (\<Sum>pod\<leftarrow>[\<lparr>TargetPodResource = \<lparr>MilliCpu = 1000, MilliGpu = 500, GpuNumber = 1\<rparr>, Percentage = 1 / 2\<rparr>,
      \<lparr>TargetPodResource = \<lparr>MilliCpu = 8000, MilliGpu = 0, GpuNumber = 0\<rparr>, Percentage = 1 / 2\<rparr>].
        fragContribution (\<lambda>n p. True)
          \<lparr>NodeName = ''node-a'', MilliCpuLeft = 4000, MilliGpuLeftList = [1000, 300]\<rparr> pod 1) = 150"
proof -
  let ?n = "\<lparr>NodeName = ''node-a'', MilliCpuLeft = 4000, MilliGpuLeftList = [1000, 300]\<rparr>"
  let ?tps = "[\<lparr>TargetPodResource = \<lparr>MilliCpu = 1000, MilliGpu = 500, GpuNumber = 1\<rparr>, Percentage = 1 / 2\<rparr>,
      \<lparr>TargetPodResource = \<lparr>MilliCpu = 8000, MilliGpu = 0, GpuNumber = 0\<rparr>, Percentage = 1 / 2 :: real\<rparr>]"
  have h1: "\<forall>pod\<in>set ?tps. 0 \<le> Percentage pod \<and> Percentage pod \<le> 1" by simp
  have h2: "\<forall>g\<in>set (MilliGpuLeftList ?n). 0 \<le> g" by simp
  have h3: "sum_list (MilliGpuLeftList ?n) < 2 ^ 63" by simp
  have val: "NodeGpuShareFragAmount (\<lambda>n p. True) ?n ?tps
     = Some \<lparr>FaNodeName = ''node-a'', Data = [0, 150, 500, 0, 0, 650, 0]\<rparr>"
    by (simp add: NodeGpuShareFragAmount_def NewFragAmount_def FragRatioDataList_def
        shareFragBody_def GetNodePodFrag_def CanNodeHostPodOnGpuMemory_def
        GetGpuMilliLeftTotal_def GetGpuFragMilliByNodeResAndPodRes_def AddByFragType_def
        FragRatioDataMap_def wrap64_def frag_names)
  from NodeGpuShareFragAmount_accumulates [OF h1 h2 h3, of "\<lambda>n p. True"]
  have "\<exists>r. NodeGpuShareFragAmount (\<lambda>n p. True) ?n ?tps = Some r
          \<and> FaNodeName r = NodeName ?n \<and> length (Data r) = 7
          \<and> (\<forall>c<7. Data r ! c = (\<Sum>pod\<leftarrow>?tps. fragContribution (\<lambda>n p. True) ?n pod c))"
    by (rule conjunct2)
  then obtain r where r: "NodeGpuShareFragAmount (\<lambda>n p. True) ?n ?tps = Some r"
    and entries: "\<forall>c<7. Data r ! c = (\<Sum>pod\<leftarrow>?tps. fragContribution (\<lambda>n p. True) ?n pod c)"
    by blast
  from r val have "r = \<lparr>FaNodeName = ''node-a'', Data = [0, 150, 500, 0, 0, 650, 0]\<rparr>"
    by (simp only: option.inject)
  then have "Data r = [0, 150, 500, 0, 0, 650, 0]" by simp
  moreover from entries have "Data r ! 1 = (\<Sum>pod\<leftarrow>?tps. fragContribution (\<lambda>n p. True) ?n pod 1)"
    by simp
  ultimately have "(\<Sum>pod\<leftarrow>?tps. fragContribution (\<lambda>n p. True) ?n pod 1) = 150"
    by simp
  with val show ?thesis by simp
qed

subsection \<open>Bellman value\<close>

lemma FragRatioDataList_length: "length FragRatioDataList = 7"
  by (simp add: FragRatioDataList_def)

lemma fragRatioLoop_returns:
  "length (RatioData fr) = 7 \<Longrightarrow>
   \<exists>fr'. fragRatioLoop acc n fr tps = Some fr' \<and> length (RatioData fr') = 7"
proof (induction tps arbitrary: fr)
  case Nil
  then show ?case by simp
next
  case (Cons pod tps)
  show ?case
  proof (cases "Percentage pod < 0 \<or> Percentage pod > 1")
    case True
    with Cons show ?thesis by (simp add: Let_def)
  next
    case False
    obtain idx where idx: "idx < 7"
        "FragRatioDataMap (GetNodePodFrag acc n (TargetPodResource pod)) = Some idx"
      using GetNodePodFrag_index by blast
    let ?fr1 = "fr\<lparr>RatioData := (RatioData fr)[idx := RatioData fr ! idx + Percentage pod]\<rparr>"
    have "AddRatio fr (GetNodePodFrag acc n (TargetPodResource pod)) (Percentage pod)
            = Some (?fr1, None)"
      using False idx Cons.prems by (simp add: AddRatio_def)
    moreover have "length (RatioData ?fr1) = 7" using Cons.prems by simp
    ultimately show ?thesis using False Cons.IH [of ?fr1] by (simp add: Let_def)
  qed
qed

lemma NodeGpuFragRatio_returns:
  "\<exists>fr. NodeGpuFragRatio acc n tps = Some fr \<and> length (RatioData fr) = 7"
  unfolding NodeGpuFragRatio_def Let_def
  by (rule fragRatioLoop_returns) (simp add: FragRatioDataList_length)

lemma FragRatioSumExceptQ3_returns:
  assumes "length (RatioData fr) = 7"
  shows "FragRatioSumExceptQ3 fr
           = Some (RatioData fr ! 0 + RatioData fr ! 1 + RatioData fr ! 3 + RatioData fr ! 4
                   + RatioData fr ! 5 + RatioData fr ! 6)"
proof -
  have "[0..<length FragRatioDataList] = [0, 1, 2, 3, 4, 5, 6]"
    by (simp add: FragRatioDataList_length upt_rec)
  then show ?thesis
    using assms by (simp add: FragRatioSumExceptQ3_def fragIndex_def FragRatioDataMap_simps)
qed

text \<open>
  C3 (as the code has it). The map is looked up first: a \<open>float64\<close> stored under the
  node's key is returned whatever the cutoffs say. On a miss, the function returns 0
  when the total of remaining GPU millis is 0 or its product with \<open>cumProb\<close> is below
  1; only after that, when the frag ratio outside \<open>Q3Satisfied\<close> is at least 0.999, it
  returns the total and stores it under the node's key. (With any fuel but 0; the frag
  ratio and its sum always return.)
\<close>

theorem NodeGpuFragBellman_cutoffs_in_order:
  fixes nodeRes :: "'a NodeResource_scheme" and typicalPods :: "'b TargetPod list"
  shows
   "\<exists>fragRatio fragRatioValue.
      NodeGpuFragRatio acc nodeRes typicalPods = Some fragRatio
      \<and> FragRatioSumExceptQ3 fragRatio = Some fragRatioValue
      \<and> (\<forall>v. dp (flatten nodeRes) = Some (Float64 v) \<longrightarrow>
            NodeGpuFragBellman (Suc fuel) acc flatten sub nodeRes typicalPods dp cumProb
              = Some (v, dp))
      \<and> ((\<forall>v. dp (flatten nodeRes) \<noteq> Some (Float64 v))
           \<and> (real_of_int (GetGpuMilliLeftTotal nodeRes) = 0
              \<or> real_of_int (GetGpuMilliLeftTotal nodeRes) * cumProb < 1) \<longrightarrow>
            NodeGpuFragBellman (Suc fuel) acc flatten sub nodeRes typicalPods dp cumProb
              = Some (0, dp))
      \<and> ((\<forall>v. dp (flatten nodeRes) \<noteq> Some (Float64 v))
           \<and> real_of_int (GetGpuMilliLeftTotal nodeRes) \<noteq> 0
           \<and> 1 \<le> real_of_int (GetGpuMilliLeftTotal nodeRes) * cumProb
           \<and> 999 / 1000 \<le> fragRatioValue \<longrightarrow>
            NodeGpuFragBellman (Suc fuel) acc flatten sub nodeRes typicalPods dp cumProb
              = Some (real_of_int (GetGpuMilliLeftTotal nodeRes),
                      dp(flatten nodeRes \<mapsto> Float64 (real_of_int (GetGpuMilliLeftTotal nodeRes)))))"
proof -
  obtain fr where fr: "NodeGpuFragRatio acc nodeRes typicalPods = Some fr"
      "length (RatioData fr) = 7"
    using NodeGpuFragRatio_returns by blast
  obtain r where r: "FragRatioSumExceptQ3 fr = Some r"
    using FragRatioSumExceptQ3_returns [OF fr(2)] by blast
  have hit: "NodeGpuFragBellman (Suc fuel) acc flatten sub nodeRes typicalPods dp cumProb
              = Some (v, dp)" if "dp (flatten nodeRes) = Some (Float64 v)" for v
    using that by (simp add: Let_def)
  have miss: "(case dp (flatten nodeRes) of Some (Float64 frag) \<Rightarrow> f frag | _ \<Rightarrow> g) = g"
    if "\<forall>v. dp (flatten nodeRes) \<noteq> Some (Float64 v)"
    for f :: "real \<Rightarrow> (real \<times> ('k \<rightharpoonup> dpValue)) option" and g
    using that by (auto split: option.splits dpValue.splits)
  have zero: "NodeGpuFragBellman (Suc fuel) acc flatten sub nodeRes typicalPods dp cumProb
              = Some (0, dp)"
    if "\<forall>v. dp (flatten nodeRes) \<noteq> Some (Float64 v)"
      and "real_of_int (GetGpuMilliLeftTotal nodeRes) = 0
              \<or> real_of_int (GetGpuMilliLeftTotal nodeRes) * cumProb < 1"
    using that(2) by (auto simp: Let_def miss [OF that(1)])
  have full: "NodeGpuFragBellman (Suc fuel) acc flatten sub nodeRes typicalPods dp cumProb
              = Some (real_of_int (GetGpuMilliLeftTotal nodeRes),
                      dp(flatten nodeRes \<mapsto> Float64 (real_of_int (GetGpuMilliLeftTotal nodeRes))))"
    if "\<forall>v. dp (flatten nodeRes) \<noteq> Some (Float64 v)"
      and "real_of_int (GetGpuMilliLeftTotal nodeRes) \<noteq> 0"
      and "1 \<le> real_of_int (GetGpuMilliLeftTotal nodeRes) * cumProb"
      and "999 / 1000 \<le> r"
    using that(2-4) fr r by (simp add: Let_def miss [OF that(1)])
  from fr(1) r hit zero full show ?thesis by blast
qed

theorem NodeGpuFragBellman_cutoffs_in_order_witness:
  "NodeGpuFragBellman (Suc 0) (\<lambda>n p. True)
     (\<lambda>n. (MilliCpuLeft n, sort (MilliGpuLeftList n)))
     (\<lambda>n p. (n, Some (Errorf ''insufficient resources'')))
     \<lparr>NodeName = ''node-a'', MilliCpuLeft = 4000, MilliGpuLeftList = [500]\<rparr>
     [\<lparr>TargetPodResource = \<lparr>MilliCpu = 1000, MilliGpu = 1000, GpuNumber = 1\<rparr>, Percentage = 1\<rparr>]
     Map.empty 1
   = Some (500, [(4000, [500]) \<mapsto> Float64 500])"
proof -
  let ?n = "\<lparr>NodeName = ''node-a'', MilliCpuLeft = 4000, MilliGpuLeftList = [500]\<rparr>"
  let ?tps = "[\<lparr>TargetPodResource = \<lparr>MilliCpu = 1000, MilliGpu = 1000, GpuNumber = 1\<rparr>,
                Percentage = 1 :: real\<rparr>]"
  let ?flatten = "\<lambda>n :: NodeResource. (MilliCpuLeft n, sort (MilliGpuLeftList n))"
  let ?sub = "\<lambda>(n :: NodeResource) (p :: PodResource). (n, Some (Errorf ''insufficient resources''))"
  let ?dp = "Map.empty :: int \<times> int list \<rightharpoonup> dpValue"
  have ratio: "NodeGpuFragRatio (\<lambda>n p. True) ?n ?tps = Some \<lparr>RatioData = [0, 1, 0, 0, 0, 0, 0]\<rparr>"
    by (simp add: NodeGpuFragRatio_def FragRatioDataList_def GetNodePodFrag_def
        CanNodeHostPodOnGpuMemory_def AddRatio_def FragRatioDataMap_simps)
  have val: "FragRatioSumExceptQ3 \<lparr>RatioData = [0, 1, 0, 0, 0, 0, 0]\<rparr> = Some 1"
    by (simp add: FragRatioSumExceptQ3_returns)
  have total: "real_of_int (GetGpuMilliLeftTotal ?n) = 500"
    by (simp add: GetGpuMilliLeftTotal_def wrap64_def)
  from NodeGpuFragBellman_cutoffs_in_order [of "\<lambda>n p. True" ?n ?tps ?dp ?flatten 0 ?sub 1]
  obtain fr r where
    "NodeGpuFragRatio (\<lambda>n p. True) ?n ?tps = Some fr" "FragRatioSumExceptQ3 fr = Some r"
    and full: "(\<forall>v. ?dp (?flatten ?n) \<noteq> Some (Float64 v))
           \<and> real_of_int (GetGpuMilliLeftTotal ?n) \<noteq> 0
           \<and> 1 \<le> real_of_int (GetGpuMilliLeftTotal ?n) * 1
           \<and> 999 / 1000 \<le> r \<longrightarrow>
            NodeGpuFragBellman (Suc 0) (\<lambda>n p. True) ?flatten ?sub ?n ?tps ?dp 1
              = Some (real_of_int (GetGpuMilliLeftTotal ?n),
                      ?dp(?flatten ?n \<mapsto> Float64 (real_of_int (GetGpuMilliLeftTotal ?n))))"
    by blast
  with ratio val have "r = 1" by simp
  with full total show ?thesis by simp
qed

text \<open>
  C3 as stated fails: a node with 500 GPU millis left on its one GPU and a workload of
  full-GPU pods only. The frag ratio outside \<open>Q3Satisfied\<close> is 1, at least 0.999, and
  the total is 500; yet with \<open>cumProb = 0.001\<close> the map is empty, the product is below
  1, and the function returns 0, not 500.
\<close>

theorem NodeGpuFragBellman_cutoff_counterexample:
  "NodeGpuFragRatio (\<lambda>n p. True)
     \<lparr>NodeName = ''node-a'', MilliCpuLeft = 4000, MilliGpuLeftList = [500]\<rparr>
     [\<lparr>TargetPodResource = \<lparr>MilliCpu = 1000, MilliGpu = 1000, GpuNumber = 1\<rparr>, Percentage = 1\<rparr>]
     = Some \<lparr>RatioData = [0, 1, 0, 0, 0, 0, 0]\<rparr>
   \<and> FragRatioSumExceptQ3 \<lparr>RatioData = [0, 1, 0, 0, 0, 0, 0]\<rparr> = Some 1
   \<and> real_of_int (GetGpuMilliLeftTotal
        \<lparr>NodeName = ''node-a'', MilliCpuLeft = 4000, MilliGpuLeftList = [500]\<rparr>) = 500
   \<and> NodeGpuFragBellman (Suc 0) (\<lambda>n p. True)
       (\<lambda>n. (MilliCpuLeft n, sort (MilliGpuLeftList n)))
       (\<lambda>n p. (n, Some (Errorf ''insufficient resources'')))
       \<lparr>NodeName = ''node-a'', MilliCpuLeft = 4000, MilliGpuLeftList = [500]\<rparr>
       [\<lparr>TargetPodResource = \<lparr>MilliCpu = 1000, MilliGpu = 1000, GpuNumber = 1\<rparr>, Percentage = 1\<rparr>]
       Map.empty (1 / 1000)
     = Some (0, Map.empty)"
  by (simp add: NodeGpuFragRatio_def FragRatioDataList_def GetNodePodFrag_def
        CanNodeHostPodOnGpuMemory_def AddRatio_def FragRatioDataMap_simps
        FragRatioSumExceptQ3_returns GetGpuMilliLeftTotal_def wrap64_def)

subsection \<open>PWR score\<close>

lemma sigmoid_range: "0 < sigmoid x \<and> sigmoid x < 1"
proof -
  have "0 < exp (- x)" by simp
  then show ?thesis by (simp add: sigmoid_def add_pos_pos)
qed

lemma fragScore_range:
  "0 \<le> int64_of_float64 (sigmoid x * real_of_int MaxNodeScore)
   \<and> int64_of_float64 (sigmoid x * real_of_int MaxNodeScore) \<le> 100"
proof -
  have "0 \<le> sigmoid x * 100" "sigmoid x * 100 \<le> 100"
    using sigmoid_range [of x] by simp_all
  then show ?thesis
    by (simp add: int64_of_float64_def MaxNodeScore_def floor_le_iff)
qed

lemma pwrShareLoop_range:
  "0 \<le> score \<Longrightarrow> score \<le> 100 \<Longrightarrow>
   0 \<le> fst (pwrShareLoop energy nodeRes podRes old idxs (score, gpuId))
   \<and> fst (pwrShareLoop energy nodeRes podRes old idxs (score, gpuId)) \<le> 100"
proof (induction idxs arbitrary: score gpuId)
  case Nil
  then show ?case by simp
next
  case (Cons i idxs)
  show ?case
    using Cons.prems Cons.IH fragScore_range
    by (auto simp: Let_def split: prod.splits)
qed

lemma Itoa_nonempty: "Itoa n \<noteq> []"
  by (subst Itoa.simps) simp

lemma calculatePWRShareFragExtendScore_range:
  "0 \<le> fst (calculatePWRShareFragExtendScore energy sub alloc nodeRes podRes typicalPods)
   \<and> fst (calculatePWRShareFragExtendScore energy sub alloc nodeRes podRes typicalPods) \<le> 100"
proof (cases "GpuNumber podRes = 1 \<and> MilliGpu podRes < MILLI")
  case True
  then show ?thesis
    using pwrShareLoop_range [of 0 energy nodeRes podRes _ _ "[]"]
    by (simp add: calculatePWRShareFragExtendScore_def Let_def split: prod.splits)
next
  case False
  then show ?thesis
    using fragScore_range
    by (auto simp: calculatePWRShareFragExtendScore_def Let_def split: prod.splits)
qed

text \<open>
  C8. Whatever the energy model, \<open>Sub\<close> and the other functions outside \<open>src/\<close>
  compute, the score of \<open>calculatePWRShareFragExtendScore\<close> is an \<open>int64\<close> in
  \<open>[0, 100]\<close>, and so is the score that \<open>Score\<close> returns; when \<open>Score\<close> succeeds for a
  pod with requests, its score is the one \<open>calculatePWRShareFragExtendScore\<close> computes
  for the node it looked up.
\<close>

theorem PWRScore_in_0_100:
  fixes nodeRes :: "'a NodeResource_scheme" and podRes :: "'b PodResource_scheme"
    and p :: "'p Pod_scheme"
  shows
   "0 \<le> fst (calculatePWRShareFragExtendScore energy sub alloc nodeRes podRes typicalPods)
    \<and> fst (calculatePWRShareFragExtendScore energy sub alloc nodeRes podRes typicalPods) \<le> 100
    \<and> is_int64 (fst (calculatePWRShareFragExtendScore energy sub alloc nodeRes podRes typicalPods))
    \<and> 0 \<le> fst (Score energy sub alloc getNodeRes getPodRes acc typicalPods p nodeName)
    \<and> fst (Score energy sub alloc getNodeRes getPodRes acc typicalPods p nodeName) \<le> 100
    \<and> is_int64 (fst (Score energy sub alloc getNodeRes getPodRes acc typicalPods p nodeName))
    \<and> (Requests p \<noteq> Map.empty
         \<and> snd (Score energy sub alloc getNodeRes getPodRes acc typicalPods p nodeName) = Success
        \<longrightarrow> (\<exists>n. getNodeRes nodeName = Some n
              \<and> fst (Score energy sub alloc getNodeRes getPodRes acc typicalPods p nodeName)
                = fst (calculatePWRShareFragExtendScore energy sub alloc n (getPodRes p)
                         typicalPods)))"
proof -
  let ?calc = "\<lambda>n q. fst (calculatePWRShareFragExtendScore energy sub alloc n q typicalPods)"
  let ?score = "Score energy sub alloc getNodeRes getPodRes acc typicalPods p nodeName"
  have c: "0 \<le> ?calc n q \<and> ?calc n q \<le> 100" for n :: "'a NodeResource_scheme" and q
    by (rule calculatePWRShareFragExtendScore_range)
  have s: "0 \<le> fst ?score \<and> fst ?score \<le> 100"
  proof (cases "Requests p = Map.empty")
    case True
    then show ?thesis by (simp add: Score_def MaxNodeScore_def)
  next
    case False
    show ?thesis
    proof (cases "getNodeRes nodeName")
      case None
      with False show ?thesis by (simp add: Score_def MinNodeScore_def)
    next
      case (Some n)
      with False c [of n "getPodRes p"] show ?thesis
        by (auto simp: Score_def Let_def MinNodeScore_def split: prod.splits)
    qed
  qed
  have t: "Requests p \<noteq> Map.empty \<and> snd ?score = Success
        \<longrightarrow> (\<exists>n. getNodeRes nodeName = Some n \<and> fst ?score = ?calc n (getPodRes p))"
    by (auto simp: Score_def Let_def split: option.splits prod.splits if_splits)
  from c [of nodeRes podRes] s t show ?thesis
    by (simp add: is_int64_def)
qed

theorem PWRScore_in_0_100_witness:
  "Score (\<lambda>n. (150, 300)) (\<lambda>n p. (n, None)) (\<lambda>n p. [])
     (\<lambda>name. Some \<lparr>NodeName = name, MilliCpuLeft = 4000, MilliGpuLeftList = [1000, 600]\<rparr>)
     (\<lambda>p. \<lparr>MilliCpu = 1000, MilliGpu = 300, GpuNumber = 1\<rparr>) (\<lambda>n p. True) []
     \<lparr>SpecNodeName = [], Requests = [''cpu'' \<mapsto> 1]\<rparr> ''node-a''
   = (50, Success)
   \<and> calculatePWRShareFragExtendScore (\<lambda>n. (150, 300)) (\<lambda>n p. (n, None)) (\<lambda>n p. [])
       \<lparr>NodeName = ''node-a'', MilliCpuLeft = 4000, MilliGpuLeftList = [1000, 600]\<rparr>
       \<lparr>MilliCpu = 1000, MilliGpu = 300, GpuNumber = 1\<rparr> []
     = (50, ''0'')"
proof -
  let ?energy = "\<lambda>n :: NodeResource. (150 :: real, 300 :: real)"
  let ?sub = "\<lambda>(n :: NodeResource) (p :: PodResource). (n, None :: error option)"
  let ?alloc = "\<lambda>(n :: NodeResource) (p :: PodResource). [] :: string"
  let ?get = "\<lambda>name. Some \<lparr>NodeName = name, MilliCpuLeft = 4000, MilliGpuLeftList = [1000, 600]\<rparr>"
  let ?res = "\<lambda>p :: Pod. \<lparr>MilliCpu = 1000, MilliGpu = 300, GpuNumber = 1\<rparr>"
  let ?acc = "\<lambda>(n :: NodeResource) (p :: PodResource). True"
  let ?p = "\<lparr>SpecNodeName = [], Requests = [''cpu'' \<mapsto> 1 :: real]\<rparr>"
  let ?n = "\<lparr>NodeName = ''node-a'', MilliCpuLeft = 4000, MilliGpuLeftList = [1000, 600]\<rparr>"
  have i0: "Itoa 0 = ''0''" by (simp add: Itoa.simps digitChar_def)
  have calc: "calculatePWRShareFragExtendScore ?energy ?sub ?alloc ?n
       \<lparr>MilliCpu = 1000, MilliGpu = 300, GpuNumber = 1\<rparr> [] = (50, ''0'')"
    by (simp add: calculatePWRShareFragExtendScore_def MILLI_def upt_rec sigmoid_def
        int64_of_float64_def MaxNodeScore_def i0)
  have req: "Requests ?p \<noteq> Map.empty" by simp
  have st: "snd (Score ?energy ?sub ?alloc ?get ?res ?acc [] ?p ''node-a'') = Success"
    using req by (simp add: Score_def Let_def split: prod.splits)
  from PWRScore_in_0_100 [of ?energy ?sub ?alloc ?n "\<lparr>MilliCpu = 1000, MilliGpu = 300, GpuNumber = 1\<rparr>"
      "[]" ?get ?res ?acc ?p "''node-a''"] req st
  have "fst (Score ?energy ?sub ?alloc ?get ?res ?acc [] ?p ''node-a'')
          = fst (calculatePWRShareFragExtendScore ?energy ?sub ?alloc ?n (?res ?p) [])"
    by auto
  with calc st have "Score ?energy ?sub ?alloc ?get ?res ?acc [] ?p ''node-a'' = (50, Success)"
    by (simp add: prod_eq_iff)
  with calc show ?thesis by simp
qed

subsection \<open>AddGamma\<close>

text \<open>
  When the receiver's \<open>Data\<close> is not empty and lies in another array than
  \<open>faOther.Data\<close>, the caller does see every entry increased by \<open>gamma\<close> times the
  other's entry.
\<close>

lemma addGamma_loop:
  fixes a b :: slice
  assumes "ptr a \<noteq> ptr b" and "off a + n \<le> length (cells st (ptr a))"
  shows "k \<le> n \<Longrightarrow>
    cells (foldl (\<lambda>s i. sliceSet s a i (sliceGet s a i + gamma * sliceGet s b i)) st [0..<k]) (ptr b)
      = cells st (ptr b)
    \<and> length (cells (foldl (\<lambda>s i. sliceSet s a i (sliceGet s a i + gamma * sliceGet s b i)) st [0..<k]) (ptr a))
      = length (cells st (ptr a))
    \<and> (\<forall>j. cells (foldl (\<lambda>s i. sliceSet s a i (sliceGet s a i + gamma * sliceGet s b i)) st [0..<k]) (ptr a) ! j
          = (if off a \<le> j \<and> j < off a + k
             then cells st (ptr a) ! j + gamma * cells st (ptr b) ! (off b + (j - off a))
             else cells st (ptr a) ! j))"
proof (induction k)
  case 0
  then show ?case by simp
next
  case (Suc k)
  let ?s = "foldl (\<lambda>s i. sliceSet s a i (sliceGet s a i + gamma * sliceGet s b i)) st [0..<k]"
  from Suc have ih: "cells ?s (ptr b) = cells st (ptr b)"
      "length (cells ?s (ptr a)) = length (cells st (ptr a))"
      "\<And>j. cells ?s (ptr a) ! j
          = (if off a \<le> j \<and> j < off a + k
             then cells st (ptr a) ! j + gamma * cells st (ptr b) ! (off b + (j - off a))
             else cells st (ptr a) ! j)"
    by simp_all
  have in_range: "off a + k < length (cells ?s (ptr a))"
    using Suc.prems assms(2) ih(2) by simp
  show ?case
    using assms(1) ih in_range
    by (auto simp: sliceSet_def sliceGet_def nth_list_update)
qed

lemma AddGamma_visible:
  assumes ne: "len (Data fa) \<noteq> 0" and same: "len (Data fa) = len (Data faOther)"
    and disj: "ptr (Data fa) \<noteq> ptr (Data faOther)"
    and va: "off (Data fa) + len (Data fa) \<le> length (cells st (ptr (Data fa)))"
    and vb: "off (Data faOther) + len (Data faOther) \<le> length (cells st (ptr (Data faOther)))"
  shows "snd (AddGamma st fa faOther gamma) = None
    \<and> sliceView (fst (AddGamma st fa faOther gamma)) (Data fa)
        = map2 (\<lambda>x y. x + gamma * y) (sliceView st (Data fa)) (sliceView st (Data faOther))
    \<and> sliceView (fst (AddGamma st fa faOther gamma)) (Data faOther)
        = sliceView st (Data faOther)"
proof -
  let ?a = "Data fa" and ?b = "Data faOther"
  let ?st = "foldl (\<lambda>s i. sliceSet s ?a i (sliceGet s ?a i + gamma * sliceGet s ?b i)) st
               [0..<len ?a]"
  have res: "AddGamma st fa faOther gamma = (?st, None)"
    using ne same by (simp add: AddGamma_def)
  from addGamma_loop [OF disj va, of "len ?a" gamma]
  have l: "cells ?st (ptr ?b) = cells st (ptr ?b)"
      "length (cells ?st (ptr ?a)) = length (cells st (ptr ?a))"
      "\<And>j. cells ?st (ptr ?a) ! j
          = (if off ?a \<le> j \<and> j < off ?a + len ?a
             then cells st (ptr ?a) ! j + gamma * cells st (ptr ?b) ! (off ?b + (j - off ?a))
             else cells st (ptr ?a) ! j)"
    by simp_all
  have "sliceView ?st ?a
          = map2 (\<lambda>x y. x + gamma * y) (sliceView st ?a) (sliceView st ?b)"
  proof (rule nth_equalityI)
    show "length (sliceView ?st ?a)
            = length (map2 (\<lambda>x y. x + gamma * y) (sliceView st ?a) (sliceView st ?b))"
      using va vb same l(2) by (simp add: sliceView_def)
    fix i assume "i < length (sliceView ?st ?a)"
    then have i: "i < len ?a" by (simp add: sliceView_def)
    then show "sliceView ?st ?a ! i
            = map2 (\<lambda>x y. x + gamma * y) (sliceView st ?a) (sliceView st ?b) ! i"
      using va vb same l(2) l(3) [of "off ?a + i"]
      by (simp add: sliceView_def)
  qed
  with res l(1) show ?thesis by (simp add: sliceView_def)
qed

text \<open>
  C9 on first use. The caller's \<open>fa.Data\<close> is \<open>nil\<close> (length 0, address 0, where
  nothing is allocated) and \<open>faOther.Data\<close> is \<open>[1, 2, 3, 4, 5, 6, 7]\<close>, the array at
  address 1; \<open>gamma = 2\<close>. \<open>AddGamma\<close> returns \<open>nil\<close>, yet the caller's \<open>fa.Data\<close> still
  shows no element: the sums \<open>[2, 4, 6, 8, 10, 12, 14]\<close> were written to the array that
  \<open>make\<close> allocated at address 2, which only the method's copy of the receiver points
  to.
\<close>

theorem AddGamma_first_use_lost:
  "snd (AddGamma \<lparr>cells = (\<lambda>a. [])(1 := [1, 2, 3, 4, 5, 6, 7]), next = 2\<rparr>
          \<lparr>FaNodeName = ''node-a'', Data = \<lparr>ptr = 0, off = 0, len = 0\<rparr>\<rparr>
          \<lparr>FaNodeName = ''node-b'', Data = \<lparr>ptr = 1, off = 0, len = 7\<rparr>\<rparr> 2) = None
   \<and> sliceView
        (fst (AddGamma \<lparr>cells = (\<lambda>a. [])(1 := [1, 2, 3, 4, 5, 6, 7]), next = 2\<rparr>
          \<lparr>FaNodeName = ''node-a'', Data = \<lparr>ptr = 0, off = 0, len = 0\<rparr>\<rparr>
          \<lparr>FaNodeName = ''node-b'', Data = \<lparr>ptr = 1, off = 0, len = 7\<rparr>\<rparr> 2))
        (Data \<lparr>FaNodeName = ''node-a'', Data = \<lparr>ptr = 0, off = 0, len = 0\<rparr>\<rparr>) = []
   \<and> cells
        (fst (AddGamma \<lparr>cells = (\<lambda>a. [])(1 := [1, 2, 3, 4, 5, 6, 7]), next = 2\<rparr>
          \<lparr>FaNodeName = ''node-a'', Data = \<lparr>ptr = 0, off = 0, len = 0\<rparr>\<rparr>
          \<lparr>FaNodeName = ''node-b'', Data = \<lparr>ptr = 1, off = 0, len = 7\<rparr>\<rparr> 2)) 2
       = [2, 4, 6, 8, 10, 12, 14]"
  by (simp add: AddGamma_def makeSlice_def FragRatioDataList_length upt_rec sliceSet_def
      sliceGet_def sliceView_def eval_nat_numeral)

subsection \<open>Typical pods\<close>

text \<open>
  C4 on a workload of two pods with different requests, one of each: the two counts
  tie. A run in which \<open>range\<close> visits the counting map in one order selects the first
  request as the only typical pod, a run which visits it in the other order selects
  the second; \<open>SortTargetPodInDecreasingCount\<close> returns the two entries in the order
  in which \<open>range\<close> gave them. (All numbers are whole or halves: rounding plays no part,
  \<open>rnd\<close> is the identity. The configuration sets threshold and step, the defaults
  \<open>100\<close> and \<open>1\<close> passed here are not read.)
\<close>

theorem GetTypicalPods_depends_on_range_order:
  "GetTypicalPods (\<lambda>x. x) (\<lambda>entries. entries) sortReverseShort (\<lambda>p. p) 100 1
     [\<lparr>MilliCpu = 1000, MilliGpu = 500, GpuNumber = 1\<rparr>,
      \<lparr>MilliCpu = 2000, MilliGpu = 1000, GpuNumber = 1\<rparr>]
     \<lparr>IsInvolvedCpuPods = False, GpuResWeight = 0, PodPopularityThreshold = 50,
      PodIncreaseStep = 1\<rparr>
   = Some [\<lparr>TargetPodResource = \<lparr>MilliCpu = 1000, MilliGpu = 500, GpuNumber = 1\<rparr>,
            Percentage = 1\<rparr>]
   \<and> GetTypicalPods (\<lambda>x. x) rev sortReverseShort (\<lambda>p. p) 100 1
     [\<lparr>MilliCpu = 1000, MilliGpu = 500, GpuNumber = 1\<rparr>,
      \<lparr>MilliCpu = 2000, MilliGpu = 1000, GpuNumber = 1\<rparr>]
     \<lparr>IsInvolvedCpuPods = False, GpuResWeight = 0, PodPopularityThreshold = 50,
      PodIncreaseStep = 1\<rparr>
   = Some [\<lparr>TargetPodResource = \<lparr>MilliCpu = 2000, MilliGpu = 1000, GpuNumber = 1\<rparr>,
            Percentage = 1\<rparr>]
   \<and> SortTargetPodInDecreasingCount (\<lambda>entries. entries) sortReverseShort
       [(\<lparr>MilliCpu = 1000, MilliGpu = 500, GpuNumber = 1\<rparr>, 1),
        (\<lparr>MilliCpu = 2000, MilliGpu = 1000, GpuNumber = 1\<rparr>, 1)]
     = [\<lparr>TargetPodResource = \<lparr>MilliCpu = 1000, MilliGpu = 500, GpuNumber = 1\<rparr>, Percentage = 1\<rparr>,
        \<lparr>TargetPodResource = \<lparr>MilliCpu = 2000, MilliGpu = 1000, GpuNumber = 1\<rparr>, Percentage = 1\<rparr>]
   \<and> SortTargetPodInDecreasingCount rev sortReverseShort
       [(\<lparr>MilliCpu = 1000, MilliGpu = 500, GpuNumber = 1\<rparr>, 1),
        (\<lparr>MilliCpu = 2000, MilliGpu = 1000, GpuNumber = 1\<rparr>, 1)]
     = [\<lparr>TargetPodResource = \<lparr>MilliCpu = 2000, MilliGpu = 1000, GpuNumber = 1\<rparr>, Percentage = 1\<rparr>,
        \<lparr>TargetPodResource = \<lparr>MilliCpu = 1000, MilliGpu = 500, GpuNumber = 1\<rparr>, Percentage = 1\<rparr>]"
  by (simp add: GetTypicalPods_def countPod_def MILLI_def SortTargetPodInDecreasingCount_def
      sortReverseShort_def insertionSort_def TargetPodListLess_def
      selectOuter.simps selectInner.simps wrap64_def)

lemma binary64_eval:
  assumes "0 < x" "2 powi e \<le> x" "x < 2 powi (e + 1)"
  shows "binary64 x = of_int (roundHalfEven (x / 2 powi (e - 52))) * 2 powi (e - 52)"
proof -
  have "2 powr (real_of_int e) \<le> x \<and> x < 2 powr (real_of_int e + 1)"
    using assms powr_real_of_int' [of 2 e] powr_real_of_int' [of 2 "e + 1"]
    by (simp add: add.commute)
  then have "\<lfloor>log 2 x\<rfloor> = e"
    using assms(1) by (simp add: floor_log_eq_powr_iff)
  with assms(1) show ?thesis
    by (simp add: binary64_def Let_def)
qed

text \<open>The roundings of the run below.\<close>

lemma binary64_4w: "binary64 (3242591731706757 / 9007199254740992)
             = 3242591731706757 / 9007199254740992"
  by (subst binary64_eval [where e = "- 2"]) (simp_all add: roundHalfEven_def power_int_minus)

lemma binary64_1_plus_4w: "binary64 (12249790986447749 / 9007199254740992)
             = 3062447746611937 / 2251799813685248"
  by (subst binary64_eval [where e = 0]) (simp_all add: roundHalfEven_def power_int_minus)

lemma binary64_cnt: "binary64 (3062447746611937 / 2251799813685248)
             = 3062447746611937 / 2251799813685248"
  by (subst binary64_eval [where e = 0]) (simp_all add: roundHalfEven_def power_int_minus)

lemma binary64_100_cnt: "binary64 (76561193665298425 / 562949953421312) = 136"
  by (subst binary64_eval [where e = 7]) (simp_all add: roundHalfEven_def power_int_minus)

lemma binary64_136_100: "binary64 (34 / 25) = 6124895493223875 / 4503599627370496"
  by (subst binary64_eval [where e = 0]) (simp_all add: roundHalfEven_def power_int_minus)

lemma binary64_1: "binary64 1 = 1"
  by (subst binary64_eval [where e = 0]) (simp_all add: roundHalfEven_def power_int_minus)

lemma selectInner_done:
  "length l \<le> i \<Longrightarrow> selectInner rnd t p (i, c, l) = (i, c, l)"
  by (simp add: selectInner.simps)

lemma selectOuter_stuck:
  assumes "length l \<le> i" and "c < ex"
  shows "selectOuter rnd cfg d t ex (i, p, c, l) = None"
proof (rule ccontr)
  assume "selectOuter rnd cfg d t ex (i, p, c, l) \<noteq> None"
  then obtain y where y: "selectOuter rnd cfg d t ex (i, p, c, l) = Some y" by auto
  have "\<not> (\<exists>p'. (i, p, c, l) = (i, p', c, l) \<and> rnd = rnd \<and> t = t \<and> ex = ex)"
  proof (rule selectOuter.raw_induct
      [where P = "\<lambda>rnd' cfg' d' t' ex' st y'.
                    \<not> (\<exists>p'. st = (i, p', c, l) \<and> rnd' = rnd \<and> t' = t \<and> ex' = ex)",
       OF _ y], goal_cases)
    case (1 f rnd' cfg' d' t' ex' st y')
    show ?case
    proof
      assume "\<exists>p'. st = (i, p', c, l) \<and> rnd' = rnd \<and> t' = t \<and> ex' = ex"
      then obtain p' where st: "st = (i, p', c, l)" "rnd' = rnd" "t' = t" "ex' = ex" by blast
      let ?p = "if 0 < PodIncreaseStep cfg' then wrap64 (p' + PodIncreaseStep cfg')
                else wrap64 (p' + d')"
      from 1(2) st assms
      have "f rnd cfg' d' t ex (i, ?p, c, l) = Some y'"
        by (simp add: Let_def selectInner_done split: if_splits)
      from 1(1) [OF this] show False by blast
    qed
  qed
  then show False by blast
qed

lemma one_pod_count:
  "foldl (countPod binary64
       \<lparr>IsInvolvedCpuPods = False, GpuResWeight = 3242591731706757 / 36028797018963968,
        PodPopularityThreshold = 100, PodIncreaseStep = 1\<rparr> (\<lambda>p. p)) ([], 0)
     [\<lparr>MilliCpu = 1000, MilliGpu = 1000, GpuNumber = 4\<rparr>]
   = ([(\<lparr>MilliCpu = 1000, MilliGpu = 1000, GpuNumber = 4\<rparr>,
        3062447746611937 / 2251799813685248)], 3062447746611937 / 2251799813685248)"
  by (simp add: countPod_def MILLI_def Let_def binary64_4w binary64_1_plus_4w binary64_cnt)

lemma one_pod_inner:
  "selectInner binary64 (3062447746611937 / 2251799813685248) 1
     (0, 0, [\<lparr>TargetPodResource = \<lparr>MilliCpu = 1000, MilliGpu = 1000, GpuNumber = 4\<rparr>,
              Percentage = 3062447746611937 / 2251799813685248\<rparr>])
   = (1, 3062447746611937 / 2251799813685248,
      [\<lparr>TargetPodResource = \<lparr>MilliCpu = 1000, MilliGpu = 1000, GpuNumber = 4\<rparr>,
        Percentage = 1\<rparr>])"
  by (simp add: selectInner.simps binary64_cnt binary64_1)

lemma one_pod_outer:
  "selectOuter binary64
     \<lparr>IsInvolvedCpuPods = False, GpuResWeight = 3242591731706757 / 36028797018963968,
      PodPopularityThreshold = 100, PodIncreaseStep = 1\<rparr> 1
     (3062447746611937 / 2251799813685248) (6124895493223875 / 4503599627370496)
     (0, 0, 0, [\<lparr>TargetPodResource = \<lparr>MilliCpu = 1000, MilliGpu = 1000, GpuNumber = 4\<rparr>,
                 Percentage = 3062447746611937 / 2251799813685248\<rparr>])
   = None"
proof -
  let ?cfg = "\<lparr>IsInvolvedCpuPods = False, GpuResWeight = 3242591731706757 / 36028797018963968,
      PodPopularityThreshold = 100, PodIncreaseStep = 1\<rparr>"
  let ?w = "3062447746611937 / 2251799813685248 :: real"
  let ?ex = "6124895493223875 / 4503599627370496 :: real"
  let ?pod = "\<lparr>MilliCpu = 1000, MilliGpu = 1000, GpuNumber = 4\<rparr>"
  have "selectOuter binary64 ?cfg 1 ?w ?ex
          (0, 0, 0, [\<lparr>TargetPodResource = ?pod, Percentage = ?w\<rparr>])
        = selectOuter binary64 ?cfg 1 ?w ?ex
          (1, 1, ?w, [\<lparr>TargetPodResource = ?pod, Percentage = 1\<rparr>])"
    by (subst selectOuter.simps) (simp add: one_pod_inner wrap64_def)
  also have "\<dots> = None"
    by (rule selectOuter_stuck) simp_all
  finally show ?thesis .
qed

text \<open>
  C10 on a workload of one pod that asks for 4 whole GPUs, with \<open>gpuResWeight: 0.09\<close>
  (its \<open>float64\<close> is \<open>3242591731706757 / 2^55\<close>) and \<open>podPopularityThreshold: 100\<close>. The
  weighted count of the pod is \<open>1 + 4 * 0.09\<close>, rounded to
  \<open>3062447746611937 / 2^51 = 1.3599999999999999\<close>, and so are \<open>total\<close> and, after the
  first round of the loop, \<open>cumNumPods\<close>. But \<open>100 * total\<close> rounds to \<open>136\<close> and
  \<open>136 / 100\<close> to \<open>6124895493223875 / 2^52 = 1.36\<close>: \<open>expectedNumPods\<close> is one unit in
  the last place above \<open>total\<close>. The list is used up, \<open>cumNumPods < expectedNumPods\<close>
  stays true, and \<open>GetTypicalPods\<close> does not return. (The configuration sets threshold
  and step, the defaults \<open>100\<close> and \<open>1\<close> passed here are not read.)
\<close>

theorem GetTypicalPods_binary64_no_return:
  "GetTypicalPods binary64 (\<lambda>entries. entries) sortReverseShort (\<lambda>p. p) 100 1
     [\<lparr>MilliCpu = 1000, MilliGpu = 1000, GpuNumber = 4\<rparr>]
     \<lparr>IsInvolvedCpuPods = False, GpuResWeight = 3242591731706757 / 36028797018963968,
      PodPopularityThreshold = 100, PodIncreaseStep = 1\<rparr>
   = None"
proof -
  have srt: "SortTargetPodInDecreasingCount (\<lambda>entries. entries) sortReverseShort
        [(\<lparr>MilliCpu = 1000, MilliGpu = 1000, GpuNumber = 4\<rparr>,
          3062447746611937 / 2251799813685248)]
      = [\<lparr>TargetPodResource = \<lparr>MilliCpu = 1000, MilliGpu = 1000, GpuNumber = 4\<rparr>,
           Percentage = 3062447746611937 / 2251799813685248\<rparr>]"
    by (simp add: SortTargetPodInDecreasingCount_def sortReverseShort_def insertionSort_def)
  show ?thesis
    unfolding GetTypicalPods_def one_pod_count
    by (simp add: srt binary64_100_cnt binary64_136_100 one_pod_outer)
qed

text \<open>In exact arithmetic (\<open>rnd\<close> the identity) the selection loop ends.\<close>

lemma update_sum_Some:
  "map_of m k = Some c \<Longrightarrow>
   sum_list (map snd (AList.update k (c + w) m)) = sum_list (map snd m) + (w :: real)"
  by (induction m) (auto split: if_splits)

lemma update_sum_None:
  "map_of m k = None \<Longrightarrow>
   sum_list (map snd (AList.update k w m)) = sum_list (map snd m) + (w :: real)"
  by (induction m) (auto split: if_splits)

lemma countPod_exact:
  assumes "countPod (\<lambda>x. x) cfg g (m, t) pod = (m', t')"
    and "sum_list (map snd m) = t" and "0 \<le> t" and "0 \<le> GpuNumber (g pod)"
  shows "sum_list (map snd m') = t' \<and> 0 \<le> t'"
proof (cases "\<not> IsInvolvedCpuPods cfg \<and> GpuNumber (g pod) = 0")
  case True
  with assms show ?thesis by (simp add: countPod_def Let_def)
next
  case False
  let ?w = "if GpuResWeight cfg > 0 \<and> MilliGpu (g pod) = MILLI
            then 1 + real_of_int (GpuNumber (g pod)) * GpuResWeight cfg else 1"
  have w: "0 \<le> ?w" using assms(4) by simp
  from False assms(1) have t': "t' = t + ?w"
    and m': "m' = (case map_of m (g pod) of
                     Some cnt \<Rightarrow> AList.update (g pod) (cnt + ?w) m
                   | None \<Rightarrow> AList.update (g pod) ?w m)"
    by (auto simp: countPod_def Let_def)
  have "sum_list (map snd m') = sum_list (map snd m) + ?w"
    unfolding m' by (cases "map_of m (g pod)") (simp_all add: update_sum_None update_sum_Some)
  with t' assms(2,3) w show ?thesis by simp
qed

lemma foldl_countPod_exact:
  "foldl (countPod (\<lambda>x. x) cfg g) (m, t) allPods = (m', t') \<Longrightarrow>
   sum_list (map snd m) = t \<Longrightarrow> 0 \<le> t \<Longrightarrow> \<forall>pod\<in>set allPods. 0 \<le> GpuNumber (g pod) \<Longrightarrow>
   sum_list (map snd m') = t' \<and> 0 \<le> t'"
proof (induction allPods arbitrary: m t)
  case Nil
  then show ?case by simp
next
  case (Cons pod allPods)
  obtain m1 t1 where s1: "countPod (\<lambda>x. x) cfg g (m, t) pod = (m1, t1)" by fastforce
  from countPod_exact [OF s1 Cons.prems(2,3)] Cons.prems(4)
  have "sum_list (map snd m1) = t1" "0 \<le> t1" by simp_all
  moreover from Cons.prems(1) s1 have "foldl (countPod (\<lambda>x. x) cfg g) (m1, t1) allPods = (m', t')"
    by simp
  ultimately show ?case using Cons.IH Cons.prems(4) by simp
qed

lemma selectInner_exact:
  "i \<le> length l \<Longrightarrow> selectInner (\<lambda>x. x) t p (i, c, l) = (i', c', l') \<Longrightarrow>
   i \<le> i' \<and> i' \<le> length l \<and> length l' = length l
   \<and> (int i < p \<and> i < length l \<longrightarrow> i < i')
   \<and> int i' \<le> max p (int i)
   \<and> c' + sum_list (map Percentage (drop i' l')) = c + sum_list (map Percentage (drop i l))"
proof (induction "(\<lambda>x. x) :: real \<Rightarrow> real" t p "(i, c, l)" arbitrary: i c l rule: selectInner.induct)
  case (1 t p i c l)
  show ?case
  proof (cases "int i < p \<and> i < length l")
    case False
    with "1.prems" show ?thesis by (auto simp: selectInner.simps)
  next
    case True
    let ?c = "c + Percentage (l ! i)"
    let ?l = "l[i := (l ! i)\<lparr>Percentage := Percentage (l ! i) / t\<rparr>]"
    from True "1.prems"(2) have rec: "selectInner (\<lambda>x. x) t p (i + 1, ?c, ?l) = (i', c', l')"
      by (subst (asm) selectInner.simps) (simp add: Let_def)
    from True have len: "i + 1 \<le> length ?l" by simp
    from "1.hyps" [OF True refl refl refl len rec]
    have ih: "i + 1 \<le> i'" "i' \<le> length ?l" "length l' = length ?l"
        "int i' \<le> max p (int (i + 1))"
        "c' + sum_list (map Percentage (drop i' l'))
           = ?c + sum_list (map Percentage (drop (i + 1) ?l))"
      by simp_all
    have "drop i l = l ! i # drop (i + 1) l"
      using True by (simp add: Cons_nth_drop_Suc)
    then have "c + sum_list (map Percentage (drop i l))
                = ?c + sum_list (map Percentage (drop (i + 1) ?l))"
      by simp
    with ih True show ?thesis by auto
  qed
qed

lemma selectOuter_exact:
  fixes cfg d
  defines "step \<equiv> (if PodIncreaseStep cfg > 0 then PodIncreaseStep cfg else d)"
  assumes step: "0 < step"
  shows "(int (length l) + 1) * step < 2 ^ 63 \<Longrightarrow> i \<le> length l \<Longrightarrow> int i \<le> p \<Longrightarrow>
         p \<le> int i * step \<Longrightarrow> ex \<le> c + sum_list (map Percentage (drop i l)) \<Longrightarrow>
         \<exists>r. selectOuter (\<lambda>x. x) cfg d t ex (i, p, c, l) = Some r"
proof (induction "length l - i" arbitrary: i p c l rule: less_induct)
  case less
  show ?case
  proof (cases "c < ex")
    case False
    then show ?thesis by (subst selectOuter.simps) simp
  next
    case True
    with less.prems(5) have "drop i l \<noteq> []" by auto
    with less.prems(2) have i: "i < length l" by simp
    let ?p = "p + step"
    have "?p \<le> (int i + 1) * step" using less.prems(4) by (simp add: algebra_simps)
    also have "\<dots> \<le> (int (length l) + 1) * step"
      using i step by (intro mult_right_mono) simp_all
    finally have "?p < 2 ^ 63" using less.prems(1) by simp
    moreover have "0 \<le> ?p" using less.prems(3) step by simp
    ultimately have w: "wrap64 ?p = ?p"
      by (intro wrap64_id) (simp add: is_int64_def)
    obtain i' c' l' where inner: "selectInner (\<lambda>x. x) t ?p (i, c, l) = (i', c', l')"
      by (metis prod_cases3)
    have lt: "int i < ?p" using less.prems(3) step by simp
    from selectInner_exact [OF less.prems(2) inner] lt i
    have f: "i < i'" "i' \<le> length l" "length l' = length l" "int i' \<le> max ?p (int i)"
        "c' + sum_list (map Percentage (drop i' l')) = c + sum_list (map Percentage (drop i l))"
      by simp_all
    have p1: "int i' \<le> ?p" using f(4) lt by simp
    have "?p \<le> (int i + 1) * step" using less.prems(4) by (simp add: algebra_simps)
    also have "\<dots> \<le> int i' * step"
      using f(1) step by (intro mult_right_mono) simp_all
    finally have p2: "?p \<le> int i' * step" .
    have "\<exists>r. selectOuter (\<lambda>x. x) cfg d t ex (i', ?p, c', l') = Some r"
    proof (rule less.hyps)
      show "length l' - i' < length l - i" using f(1,2,3) by simp
      show "(int (length l') + 1) * step < 2 ^ 63" using less.prems(1) f(3) by simp
      show "i' \<le> length l'" using f(2,3) by simp
      show "int i' \<le> ?p" by (rule p1)
      show "?p \<le> int i' * step" by (rule p2)
      show "ex \<le> c' + sum_list (map Percentage (drop i' l'))"
        using f(5) less.prems(5) by simp
    qed
    moreover have pw: "(if PodIncreaseStep cfg > 0 then wrap64 (p + PodIncreaseStep cfg)
                        else wrap64 (p + d)) = ?p"
      using w by (auto simp: step_def)
    have "selectOuter (\<lambda>x. x) cfg d t ex (i, p, c, l)
                     = selectOuter (\<lambda>x. x) cfg d t ex (i', ?p, c', l')"
      using True by (subst selectOuter.simps) (simp only: Let_def prod.case pw inner if_True)
    ultimately show ?thesis by simp
  qed
qed

lemma GetTypicalPods_exact_returns:
  fixes getPodResource :: "'pod \<Rightarrow> 'b PodResource_scheme"
  assumes perm1: "\<forall>m. mset (rangeOrder m) = mset m"
    and perm2: "\<forall>pl. mset (sortReverse pl) = mset pl"
    and thr: "(if PodPopularityThreshold config > 0 then PodPopularityThreshold config
               else defaultThreshold) \<le> 100"
    and step: "0 < (if PodIncreaseStep config > 0 then PodIncreaseStep config else defaultStep)"
    and nowrap: "(int (length allPods) + 1)
                   * (if PodIncreaseStep config > 0 then PodIncreaseStep config else defaultStep)
                 < 2 ^ 63"
    and nonneg: "\<forall>pod\<in>set allPods. 0 \<le> GpuNumber (getPodResource pod)"
  shows "\<exists>r. GetTypicalPods (\<lambda>x. x) rangeOrder sortReverse getPodResource
               defaultThreshold defaultStep allPods config = Some r"
proof -
  let ?step = "if PodIncreaseStep config > 0 then PodIncreaseStep config else defaultStep"
  let ?thr = "if PodPopularityThreshold config > 0 then PodPopularityThreshold config
              else defaultThreshold"
  obtain m t where cnt: "foldl (countPod (\<lambda>x. x) config getPodResource) ([], 0) allPods = (m, t)"
    by fastforce
  from foldl_countPod_exact [OF cnt] nonneg
  have sum: "sum_list (map snd m) = t" and t0: "0 \<le> t" by simp_all
  let ?mk = "\<lambda>(k, v). \<lparr>TargetPodResource = k, Percentage = v\<rparr>"
  let ?l = "SortTargetPodInDecreasingCount rangeOrder sortReverse m"
  have ml: "mset ?l = mset (map ?mk m)"
    using perm1 perm2 by (simp add: SortTargetPodInDecreasingCount_def)
  have "sum_list (map Percentage ?l) = sum_mset (image_mset Percentage (mset ?l))"
    by (metis mset_map sum_mset_sum_list)
  also have "\<dots> = sum_list (map Percentage (map ?mk m))"
    unfolding ml by (metis mset_map sum_mset_sum_list)
  also have "\<dots> = sum_list (map snd m)"
    by (simp add: case_prod_beta comp_def)
  finally have total: "sum_list (map Percentage ?l) = t" using sum by simp
  let ?ex = "if PodPopularityThreshold config > 0
             then real_of_int (PodPopularityThreshold config) * t / 100
             else real_of_int defaultThreshold * t / 100"
  have ex: "?ex \<le> t"
  proof -
    have "real_of_int ?thr * t \<le> 100 * t"
      using thr t0 by (intro mult_right_mono) simp_all
    then show ?thesis by (simp split: if_splits)
  qed
  have len: "length ?l \<le> length allPods"
  proof -
    have "length m \<le> length allPods + length ([] :: ('b PodResource_scheme \<times> real) list)"
      using cnt
    proof (induction allPods arbitrary: m t rule: rev_induct)
      case Nil
      then show ?case by simp
    next
      case (snoc pod allPods)
      obtain m0 t0 where c0: "foldl (countPod (\<lambda>x. x) config getPodResource) ([], 0) allPods = (m0, t0)"
        by fastforce
      from snoc.IH [OF c0] have "length m0 \<le> length allPods" by simp
      moreover have "length (AList.update k v m0) \<le> length m0 + 1" for k and v :: real
        by (induction m0) auto
      moreover from snoc.prems c0 have "countPod (\<lambda>x. x) config getPodResource (m0, t0) pod = (m, t)"
        by simp
      ultimately show ?case
        by (auto simp: countPod_def Let_def split: if_splits option.splits)
           (metis add.commute le_trans add_le_mono1 nat_le_linear not_less_eq_eq plus_1_eq_Suc)+
    qed
    moreover have "length ?l = length m"
      using ml by (metis length_map size_mset)
    ultimately show ?thesis by simp
  qed
  have "(int (length ?l) + 1) * ?step \<le> (int (length allPods) + 1) * ?step"
    using len step by (intro mult_right_mono) simp_all
  with nowrap have nw: "(int (length ?l) + 1) * ?step < 2 ^ 63" by simp
  have "\<exists>r. selectOuter (\<lambda>x. x) config defaultStep t ?ex (0, 0, 0, ?l) = Some r"
    using selectOuter_exact [OF step nw, of 0 0 ?ex 0 t] ex total by simp
  then obtain i p c l' where
    "selectOuter (\<lambda>x. x) config defaultStep t ?ex (0, 0, 0, ?l) = Some (i, p, c, l')"
    by (metis prod_cases4)
  then show ?thesis
    unfolding GetTypicalPods_def cnt by (auto simp: Let_def)
qed

end
